theory Spec2Isabelle
  imports Main "HOL-Library.Word" "HOL-Library.Signed_Division"
begin

section \<open>The configuration subsystem of flashlight (package config)\<close>

text \<open>
  The development follows \<^verbatim>\<open>config/config.go\<close> (Config, ApplyDefaults, IsDownstream,
  IsUpstream, mergedConfig, updateGlobals, Run) and the cloud half of the same package
  (cloudPoll, fetchCloudConfig, cloudPollSleepTime, emptyCloudConfig, fromBytes and the
  constants \<^verbatim>\<open>CloudConfigPollInterval\<close>, \<^verbatim>\<open>etag\<close>, \<^verbatim>\<open>ifNoneMatch\<close>).
  \<^verbatim>\<open>fetchCloudConfig\<close> and \<^verbatim>\<open>cloudPollSleepTime\<close> have the same body in every copy
  of the source; of \<^verbatim>\<open>cloudPoll\<close> the copy that starts from \<^verbatim>\<open>emptyCloudConfig()\<close> is
  followed, the one \<^verbatim>\<open>Init\<close> of config.go goes with.

  A second, viper-based draft of the package is among the sources as well (it sets its
  defaults with \<^verbatim>\<open>viper.SetDefault\<close> and hands an empty Config to the update handler).
  Where the two differ this development follows config.go: in the draft \<^verbatim>\<open>IsUpstream\<close>
  compares the role with "server", and its \<^verbatim>\<open>Run\<close> skips an event whose
  \<^verbatim>\<open>updateGlobals\<close> fails with \<^verbatim>\<open>continue\<close> where config.go returns the error.
\<close>

subsection \<open>Data model\<close>

text \<open>
  The structs of packages \<^verbatim>\<open>client\<close>, \<^verbatim>\<open>statreporter\<close>, \<^verbatim>\<open>server\<close>,
  \<^verbatim>\<open>proxiedsites\<close> and \<^verbatim>\<open>fronted\<close> are declared outside the files at hand. Their
  fields are taken from the places where the configuration code reads or writes them
  (the struct literals of \<^verbatim>\<open>ApplyDefaults\<close> and \<^verbatim>\<open>emptyCloudConfig\<close>, the assignments of
  \<^verbatim>\<open>mergedConfig\<close>, and the keys \<^verbatim>\<open>client.dumpheaders\<close>, \<^verbatim>\<open>client.proxyall\<close>,
  \<^verbatim>\<open>client.minqos\<close> and \<^verbatim>\<open>stats.reportingperiod\<close> of the viper-based draft); a struct of
  which no field is ever touched is an opaque type.
\<close>

typedecl ChainedServerInfo
typedecl Masquerade
typedecl ServerConfig

record FrontedServerInfo =
  Host :: string
  Port :: int
  PoolSize :: int
  MasqueradeSet :: string
  MaxMasquerades :: int
  QOS :: int
  Weight :: int

record ClientConfig =
  DumpHeaders :: bool
  FrontedServers :: "FrontedServerInfo list"
  ChainedServers :: "string \<rightharpoonup> ChainedServerInfo"
  MasqueradeSets :: "string \<rightharpoonup> Masquerade list"
  ProxyAll :: bool
  MinQOS :: int

record Delta =
  Additions :: "string list"
  Deletions :: "string list"

record ProxiedSitesConfig =
  Delta :: "Delta option"
  Cloud :: "string list"

record StatsConfig =
  ReportingPeriod :: int
  StatshubAddr :: string

record CA =
  CommonName :: string
  Cert :: string

text \<open>
  \<^verbatim>\<open>cloudConfig\<close> is the in-memory form of the cloud document. Its \<^verbatim>\<open>Client\<close> pointer is
  only ever read through once the snapshot is published, so the pointee is kept by value
  (\<open>None\<close> is the nil pointer).
\<close>

record cloudConfig =
  Client :: "ClientConfig option"
  ProxiedSites :: "ProxiedSitesConfig option"
  TrustedCAs :: "CA option list"

text \<open>
  \<^verbatim>\<open>Config\<close> is the in-memory form of lantern.yaml and also the type of the merged
  configuration. \<^verbatim>\<open>mergedConfig\<close> assigns through the \<^verbatim>\<open>Client\<close> pointer of a Config,
  so here the pointer is an address into a store of ClientConfig objects (see below);
  the other pointers are never written through and are kept by value.
  The two records share the field names \<open>Client\<close>, \<open>ProxiedSites\<close> and \<open>TrustedCAs\<close>:
  unqualified they are the fields of Config, and those of the cloud snapshot are written
  \<open>cloudConfig.Client\<close> and so on.
\<close>

type_synonym addr = nat

record Config =
  Version :: int
  CloudConfig :: string
  CloudConfigCA :: string
  Addr :: string
  Role :: string
  InstanceId :: string
  CpuProfile :: string
  MemProfile :: string
  UIAddr :: string
  AutoReport :: "bool option"
  AutoLaunch :: "bool option"
  Stats :: "StatsConfig option"
  Server :: "ServerConfig option"
  Client :: "addr option"
  ProxiedSites :: "ProxiedSitesConfig option"
  TrustedCAs :: "CA option list"

subsection \<open>Defaults and role of the local configuration\<close>

definition applyClientDefaults :: "Config \<Rightarrow> Config" where
  "applyClientDefaults cfg0 =
     (let cfg1 = (if AutoReport cfg0 = None then cfg0\<lparr>AutoReport := Some True\<rparr> else cfg0);
          cfg2 = (if AutoLaunch cfg1 = None then cfg1\<lparr>AutoLaunch := Some False\<rparr> else cfg1)
      in cfg2)"

text \<open>
  \<open>nodeID\<close> stands for \<^verbatim>\<open>hex.EncodeToString(uuid.NodeID())\<close> and \<open>statshubAddr\<close> for the
  command-line flag \<^verbatim>\<open>*statshubAddr\<close>; both are read from the environment.
\<close>

definition ApplyDefaults :: "string \<Rightarrow> string \<Rightarrow> Config \<Rightarrow> Config" where
  "ApplyDefaults nodeID statshubAddr cfg0 =
     (let cfg1 = (if Role cfg0 = [] then cfg0\<lparr>Role := ''client''\<rparr> else cfg0);
          cfg2 = (if Addr cfg1 = [] then cfg1\<lparr>Addr := ''localhost:8787''\<rparr> else cfg1);
          cfg3 = (if UIAddr cfg2 = [] then cfg2\<lparr>UIAddr := ''localhost:16823''\<rparr> else cfg2);
          cfg4 = (if CloudConfig cfg3 = []
                  then cfg3\<lparr>CloudConfig := ''https://config.getiantem.org/cloud.yaml.gz''\<rparr>
                  else cfg3);
          cfg5 = (if InstanceId cfg4 = [] then cfg4\<lparr>InstanceId := nodeID\<rparr> else cfg4);
          stats = (case Stats cfg5 of
                     None \<Rightarrow> \<lparr>ReportingPeriod = 0, StatshubAddr = []\<rparr>
                   | Some s \<Rightarrow> s);
          stats' = (if StatshubAddr stats = [] then stats\<lparr>StatshubAddr := statshubAddr\<rparr>
                    else stats);
          cfg6 = cfg5\<lparr>Stats := Some stats'\<rparr>
      in if Client cfg6 \<noteq> None \<and> Role cfg6 = ''client'' then applyClientDefaults cfg6
         else cfg6)"

definition IsDownstream :: "Config \<Rightarrow> bool" where
  "IsDownstream cfg = (Role cfg = ''client'')"

definition IsUpstream :: "Config \<Rightarrow> bool" where
  "IsUpstream cfg = (\<not> IsDownstream cfg)"

subsection \<open>The poll schedule\<close>

text \<open>
  \<^verbatim>\<open>time.Duration\<close> is an int64 of nanoseconds. Go's int64 arithmetic wraps around in
  two's complement (\<open>int64\<close> below); \<^verbatim>\<open>/\<close> and \<^verbatim>\<open>%\<close> truncate towards zero
  (\<open>sdiv\<close>, \<open>smod\<close>).
\<close>

definition int64 :: "int \<Rightarrow> int" where
  "int64 x = signed_take_bit 63 x"

definition CloudConfigPollInterval :: int where
  "CloudConfigPollInterval = 1 * (60 * 1000000000)"

text \<open>
  \<^verbatim>\<open>rand.Int63n(n)\<close> of the standard library panics when \<^verbatim>\<open>n <= 0\<close>; otherwise it returns
  \<^verbatim>\<open>v % n\<close> for the value \<open>v\<close> it draws with \<^verbatim>\<open>Int63()\<close>, a non-negative 63-bit integer
  (a draw it rejects is drawn again, so \<open>v\<close> is the draw it keeps). \<open>None\<close> is the panic.
\<close>

definition Int63n :: "int \<Rightarrow> 63 word \<Rightarrow> int option" where
  "Int63n n v = (if n \<le> 0 then None else Some (uint v smod n))"

definition cloudPollSleepTime :: "63 word \<Rightarrow> int option" where
  "cloudPollSleepTime v =
     (case Int63n CloudConfigPollInterval v of
        None \<Rightarrow> None
      | Some r \<Rightarrow> Some (int64 (CloudConfigPollInterval sdiv 2 + r)))"

subsection \<open>The environment of the configuration code\<close>

text \<open>
  What the code calls but does not define is a field of the environment:
  \<^item> \<open>newRequestOK url\<close>: \<^verbatim>\<open>http.NewRequest("GET", url, nil)\<close> returns no error;
  \<^item> \<open>httpDo\<close>: \<^verbatim>\<open>httpClient.Load().(*http.Client).Do(req)\<close>, the HTTP client, the network
    and the server together, as a function of the request;
  \<^item> \<open>gunzip\<close>: \<^verbatim>\<open>gzip.NewReader\<close> followed by \<^verbatim>\<open>ioutil.ReadAll\<close>;
  \<^item> \<open>yamlUnmarshal bytes dest\<close>: \<^verbatim>\<open>yaml.Unmarshal(bytes, dest)\<close>, with the struct as the
    parser leaves it, also when it fails half-way;
  \<^item> \<open>Copy\<close>: \<^verbatim>\<open>deepcopy.Copy(&merged, src)\<close> into a zero Config, a serialisation round
    trip inside the library: it is given the content of the source (its fields and the
    object behind its \<^verbatim>\<open>Client\<close> pointer, \<open>None\<close> for nil) and yields the content of the
    destination as the library leaves it, whether or not it returns an error;
  \<^item> \<open>SortFrontedServers\<close>: the method of \<^verbatim>\<open>client.ClientConfig\<close> of that name;
  \<^item> \<open>SetTrustedCAsFails certs\<close>: \<^verbatim>\<open>globals.SetTrustedCAs(certs)\<close> returns an error.
\<close>

type_synonym bytes = "8 word list"

record Request =
  Method :: string
  URL :: string
  Header :: "string \<rightharpoonup> string"
  Close :: bool

datatype Reply = NoResponse | Response int "string \<rightharpoonup> string" bytes

datatype gz = BadHeader | ReadFailed | Inflated bytes

datatype 'a parsed = Malformed 'a | Parsed 'a

datatype 'a copied = CopyFailed 'a | Copied 'a

text \<open>
  The content of a configuration: its fields, with the pointer itself blanked, and
  the object the pointer leads to.
\<close>

type_synonym content = "Config \<times> ClientConfig option"

record env =
  newRequestOK :: "string \<Rightarrow> bool"
  httpDo :: "Request \<Rightarrow> Reply"
  gunzip :: "bytes \<Rightarrow> gz"
  yamlUnmarshal :: "bytes \<Rightarrow> cloudConfig \<Rightarrow> cloudConfig parsed"
  Copy :: "content \<Rightarrow> content copied"
  SortFrontedServers :: "ClientConfig \<Rightarrow> ClientConfig"
  SetTrustedCAsFails :: "string list \<Rightarrow> bool"

text \<open>
  The errors the configuration code returns, one constructor for each place that returns
  one: the five of \<^verbatim>\<open>fetchCloudConfig\<close> in the order of the source (\<open>GzipReadError\<close> is
  the error of \<^verbatim>\<open>ioutil.ReadAll\<close>), that of \<^verbatim>\<open>fromBytes\<close> and that of \<^verbatim>\<open>updateGlobals\<close>.
\<close>

datatype error =
    RequestError
  | FetchError
  | StatusError int
  | GzipOpenError
  | GzipReadError
  | UnmarshalError
  | TrustedCAsError

text \<open>A nil dereference panics: \<open>Panic\<close> is that outcome, \<open>Ok\<close> a normal return.\<close>

datatype 'a outcome = Panic | Ok 'a

subsection \<open>The package state\<close>

text \<open>
  The store holds the ClientConfig objects that a Config points to; an address is an
  index into it, and allocation appends. Go has no dangling pointers; an address
  outside the store is treated like nil.
\<close>

type_synonym store = "ClientConfig list"

definition load :: "store \<Rightarrow> addr option \<Rightarrow> ClientConfig option" where
  "load h p = (case p of None \<Rightarrow> None
               | Some a \<Rightarrow> if a < length h then Some (h ! a) else None)"

text \<open>
  \<open>snapshot h c\<close> is the content of the configuration \<open>c\<close> in the store \<open>h\<close>. Two
  configurations with the same snapshot differ at most in the address of their
  ClientConfig object.
\<close>

definition snapshot :: "store \<Rightarrow> Config \<Rightarrow> content" where
  "snapshot h c = (c\<lparr>Client := None\<rparr>, load h (Client c))"

text \<open>
  The package-level variables \<^verbatim>\<open>localCfg\<close>, \<^verbatim>\<open>cloudCfg\<close> and \<^verbatim>\<open>lastCloudConfigETag\<close>,
  the store, \<^verbatim>\<open>globals.InstanceId\<close>, and \<open>handled\<close>: the configurations that \<^verbatim>\<open>Run\<close> has
  passed to its update handler so far, the latest last.
\<close>

record state =
  localCfg :: Config
  cloudCfg :: cloudConfig
  clients :: store
  lastCloudConfigETag :: "string \<rightharpoonup> string"
  globalsInstanceId :: string
  handled :: "Config list"

text \<open>Reading a Go \<^verbatim>\<open>map[string]string\<close>, or a header: a missing key reads as "".\<close>

definition get :: "(string \<rightharpoonup> string) \<Rightarrow> string \<Rightarrow> string" where
  "get m k = (case m k of None \<Rightarrow> [] | Some v \<Rightarrow> v)"

subsection \<open>Fetching the cloud configuration\<close>

definition etag :: string where
  "etag = ''X-Lantern-Etag''"

definition ifNoneMatch :: string where
  "ifNoneMatch = ''X-Lantern-If-None-Match''"

text \<open>
  The result of \<^verbatim>\<open>fetchCloudConfig\<close>: the request it handed to the HTTP client (if it got
  that far), what it returned (\<open>Inl\<close> the error, \<open>Inr None\<close> for \<^verbatim>\<open>nil, nil\<close>, \<open>Inr (Some b)\<close>
  for the bytes) and the package state it left.
\<close>

record fetched =
  sent :: "Request option"
  returned :: "error + bytes option"
  after :: state

definition fetchCloudConfig :: "env \<Rightarrow> string \<Rightarrow> state \<Rightarrow> fetched" where
  "fetchCloudConfig e url st =
     (if \<not> newRequestOK e url
      then \<lparr>sent = None, returned = Inl RequestError, after = st\<rparr>
      else
        let req0 = \<lparr>Method = ''GET'', URL = url, Header = Map.empty, Close = False\<rparr>;
            req1 = (if get (lastCloudConfigETag st) url \<noteq> []
                    then req0\<lparr>Header := (Header req0)(ifNoneMatch \<mapsto> get (lastCloudConfigETag st) url)\<rparr>
                    else req0);
            req = req1\<lparr>Close := True\<rparr>
        in case httpDo e req of
             NoResponse \<Rightarrow> \<lparr>sent = Some req, returned = Inl FetchError, after = st\<rparr>
           | Response StatusCode hdr body \<Rightarrow>
               if StatusCode = 304
               then \<lparr>sent = Some req, returned = Inr None, after = st\<rparr>
               else if StatusCode \<noteq> 200
               then \<lparr>sent = Some req, returned = Inl (StatusError StatusCode), after = st\<rparr>
               else
                 let st1 = st\<lparr>lastCloudConfigETag := (lastCloudConfigETag st)(url \<mapsto> get hdr etag)\<rparr>
                 in case gunzip e body of
                      BadHeader \<Rightarrow> \<lparr>sent = Some req, returned = Inl GzipOpenError, after = st1\<rparr>
                    | ReadFailed \<Rightarrow> \<lparr>sent = Some req, returned = Inl GzipReadError, after = st1\<rparr>
                    | Inflated b \<Rightarrow> \<lparr>sent = Some req, returned = Inr (Some b), after = st1\<rparr>)"

definition emptyCloudConfig :: cloudConfig where
  "emptyCloudConfig =
     \<lparr>cloudConfig.Client =
        Some \<lparr>DumpHeaders = False, FrontedServers = [], ChainedServers = Map.empty,
              MasqueradeSets = Map.empty, ProxyAll = False, MinQOS = 0\<rparr>,
      cloudConfig.ProxiedSites =
        Some \<lparr>Delta = Some \<lparr>Additions = [], Deletions = []\<rparr>, Cloud = []\<rparr>,
      cloudConfig.TrustedCAs = []\<rparr>"

text \<open>\<^verbatim>\<open>fromBytes\<close> fills the receiver in place: the error, if any, and the receiver after.\<close>

definition fromBytes :: "env \<Rightarrow> bytes \<Rightarrow> cloudConfig \<Rightarrow> error option \<times> cloudConfig" where
  "fromBytes e updateBytes updated =
     (case yamlUnmarshal e updateBytes updated of
        Malformed u \<Rightarrow> (Some UnmarshalError, u)
      | Parsed u \<Rightarrow> (None, u))"

text \<open>
  One call of \<^verbatim>\<open>cloudPoll\<close>: the request that went out, whether it sent on the channel
  \<^verbatim>\<open>cloudConfigChanged\<close>, and the package state it left. \<^verbatim>\<open>SortFrontedServers\<close> reads
  through the \<^verbatim>\<open>Client\<close> pointer, which the parser may have set to nil.
\<close>

record poll =
  request :: "Request option"
  signal :: bool
  final :: state

definition cloudPoll :: "env \<Rightarrow> state \<Rightarrow> poll outcome" where
  "cloudPoll e st =
     (let cfg = localCfg st;
          f = fetchCloudConfig e (CloudConfig cfg) st
      in case returned f of
           Inl err \<Rightarrow> Ok \<lparr>request = sent f, signal = False, final = after f\<rparr>
         | Inr None \<Rightarrow> Ok \<lparr>request = sent f, signal = False, final = after f\<rparr>
         | Inr (Some b) \<Rightarrow>
             (case fromBytes e b emptyCloudConfig of
                (Some err, newCfg) \<Rightarrow> Ok \<lparr>request = sent f, signal = False, final = after f\<rparr>
              | (None, newCfg) \<Rightarrow>
                  (case cloudConfig.Client newCfg of
                     None \<Rightarrow> Panic
                   | Some c \<Rightarrow>
                       Ok \<lparr>request = sent f, signal = True,
                           final = (after f)\<lparr>cloudCfg :=
                             newCfg\<lparr>cloudConfig.Client := Some (SortFrontedServers e c)\<rparr>\<rparr>\<rparr>)))"

subsection \<open>Merging and publishing\<close>

text \<open>
  \<^verbatim>\<open>deepcopy.Copy(&merged, localCfg.Load().(*Config))\<close>: the library is handed the content
  of the source and fills the zero Config \<^verbatim>\<open>merged\<close>; a ClientConfig object it creates is
  fresh. \<open>dst\<close> is the destination after the call: \<^verbatim>\<open>mergedConfig\<close> drops the error result
  and goes on with whatever the destination holds.
\<close>

definition dst :: "'a copied \<Rightarrow> 'a" where
  "dst r = (case r of CopyFailed d \<Rightarrow> d | Copied d \<Rightarrow> d)"

definition deepcopy :: "env \<Rightarrow> Config \<Rightarrow> store \<Rightarrow> (Config \<times> store) outcome" where
  "deepcopy e src h =
     (if Client src \<noteq> None \<and> load h (Client src) = None then Panic
      else
        case dst (Copy e (snapshot h src)) of
          (d, None) \<Rightarrow> Ok (d\<lparr>Client := None\<rparr>, h)
        | (d, Some c) \<Rightarrow> Ok (d\<lparr>Client := Some (length h)\<rparr>, h @ [c]))"

definition mergedConfig :: "env \<Rightarrow> state \<Rightarrow> (Config \<times> state) outcome" where
  "mergedConfig e st =
     (case deepcopy e (localCfg st) (clients st) of
        Panic \<Rightarrow> Panic
      | Ok (merged, h) \<Rightarrow>
          let cloud = cloudCfg st
          in case Client merged of
               None \<Rightarrow> Panic
             | Some p \<Rightarrow>
                 (case load h (Some p) of
                    None \<Rightarrow> Panic
                  | Some mc \<Rightarrow>
                      (case cloudConfig.Client cloud of
                         None \<Rightarrow> Panic
                       | Some cc \<Rightarrow>
                           let mc1 = mc\<lparr>FrontedServers := FrontedServers cc\<rparr>;
                               mc2 = mc1\<lparr>ChainedServers := ChainedServers cc\<rparr>;
                               mc3 = mc2\<lparr>MasqueradeSets := MasqueradeSets cc\<rparr>;
                               merged1 = merged\<lparr>ProxiedSites := cloudConfig.ProxiedSites cloud\<rparr>;
                               merged2 = merged1\<lparr>TrustedCAs := cloudConfig.TrustedCAs cloud\<rparr>
                           in Ok (merged2, st\<lparr>clients := h[p := mc3]\<rparr>))))"

fun certsOf :: "CA option list \<Rightarrow> string list \<Rightarrow> string list option" where
  "certsOf [] certs = Some certs"
| "certsOf (None # cas) certs = None"
| "certsOf (Some ca # cas) certs = certsOf cas (certs @ [Cert ca])"

definition TrustedCACerts :: "Config \<Rightarrow> string list option" where
  "TrustedCACerts cfg = certsOf (TrustedCAs cfg) []"

definition updateGlobals :: "env \<Rightarrow> Config \<Rightarrow> state \<Rightarrow> (error option \<times> state) outcome" where
  "updateGlobals e cfg st =
     (let st1 = st\<lparr>globalsInstanceId := InstanceId cfg\<rparr>
      in case TrustedCACerts cfg of
           None \<Rightarrow> Panic
         | Some certs \<Rightarrow>
             if SetTrustedCAsFails e certs then Ok (Some TrustedCAsError, st1)
             else Ok (None, st1))"

text \<open>
  \<^verbatim>\<open>Run\<close> waits in its \<^verbatim>\<open>select\<close> for the next local configuration from \<^verbatim>\<open>m.Next()\<close> or for
  a signal on \<^verbatim>\<open>cloudConfigChanged\<close>. \<open>selected\<close> is the effect of the \<^verbatim>\<open>select\<close> for one
  such event, \<open>iteration\<close> one pass of the loop; \<open>Run\<close> takes the events that arrive, in
  order. It ends \<open>Waiting\<close> (blocked in the \<^verbatim>\<open>select\<close> once the events are used up),
  \<open>Returned\<close> (the \<^verbatim>\<open>return err\<close>) or \<open>Panicked\<close>. The update handler is the caller's; its
  calls are recorded in \<open>handled\<close>.
\<close>

datatype event = LocalNext Config | CloudConfigChanged

datatype run = Waiting state | Returned error state | Panicked

definition selected :: "event \<Rightarrow> state \<Rightarrow> state" where
  "selected ev st =
     (case ev of LocalNext next \<Rightarrow> st\<lparr>localCfg := next\<rparr> | CloudConfigChanged \<Rightarrow> st)"

definition iteration :: "env \<Rightarrow> event \<Rightarrow> state \<Rightarrow> run" where
  "iteration e ev st =
     (let st1 = selected ev st
      in case mergedConfig e st1 of
           Panic \<Rightarrow> Panicked
         | Ok (cfg, st2) \<Rightarrow>
             (case updateGlobals e cfg st2 of
                Panic \<Rightarrow> Panicked
              | Ok (Some err, st3) \<Rightarrow> Returned err st3
              | Ok (None, st3) \<Rightarrow> Waiting (st3\<lparr>handled := handled st3 @ [cfg]\<rparr>)))"


subsection \<open>Observations used to state the properties\<close>

text \<open>
  The two columns of the precedence table, read off a Config and the store its \<open>Client\<close>
  pointer points into. \<open>localPart\<close>: role, addresses, instance id, profiling, UI address,
  stats, and every other field that \<^verbatim>\<open>mergedConfig\<close> does not assign. \<open>cloudPart\<close>: fronted
  servers, chained servers, masquerade sets, proxied sites and trusted CAs; \<open>cloudOf\<close> reads
  the same fields off a cloud snapshot.
\<close>

definition localPart ::
  "store \<Rightarrow> Config \<Rightarrow>
     int \<times> string \<times> string \<times> string \<times> string \<times> string \<times> string \<times> string \<times> string
     \<times> bool option \<times> bool option \<times> StatsConfig option \<times> ServerConfig option
     \<times> (bool \<times> bool \<times> int) option" where
  "localPart h c =
     (Version c, CloudConfig c, CloudConfigCA c, Addr c, Role c, InstanceId c, CpuProfile c,
      MemProfile c, UIAddr c, AutoReport c, AutoLaunch c, Stats c, Server c,
      map_option (\<lambda>x. (DumpHeaders x, ProxyAll x, MinQOS x)) (load h (Client c)))"

type_synonym cloudFields =
  "(FrontedServerInfo list \<times> (string \<rightharpoonup> ChainedServerInfo) \<times> (string \<rightharpoonup> Masquerade list)) option
   \<times> ProxiedSitesConfig option \<times> CA option list"

definition cloudPart :: "store \<Rightarrow> Config \<Rightarrow> cloudFields" where
  "cloudPart h c =
     (map_option (\<lambda>x. (FrontedServers x, ChainedServers x, MasqueradeSets x)) (load h (Client c)),
      ProxiedSites c, TrustedCAs c)"

definition cloudOf :: "cloudConfig \<Rightarrow> cloudFields" where
  "cloudOf cloud =
     (map_option (\<lambda>x. (FrontedServers x, ChainedServers x, MasqueradeSets x))
        (cloudConfig.Client cloud),
      cloudConfig.ProxiedSites cloud, cloudConfig.TrustedCAs cloud)"

text \<open>\<open>mergedConfigs e n\<close>: \<^verbatim>\<open>mergedConfig\<close> called \<open>n + 1\<close> times in a row; the last result.\<close>

fun mergedConfigs :: "env \<Rightarrow> nat \<Rightarrow> state \<Rightarrow> (Config \<times> state) outcome" where
  "mergedConfigs e 0 st = mergedConfig e st"
| "mergedConfigs e (Suc n) st =
     (case mergedConfig e st of Panic \<Rightarrow> Panic | Ok (m, st') \<Rightarrow> mergedConfigs e n st')"

text \<open>
  The pairs that the merge is specified for: the local configuration and the cloud
  snapshot both have a client section, and the deep copy hands back the content of the
  local configuration as it is (the round trip through the serialised form changes
  nothing of it).
\<close>

definition mergeable :: "env \<Rightarrow> state \<Rightarrow> bool" where
  "mergeable e st =
     (load (clients st) (Client (localCfg st)) \<noteq> None
      \<and> cloudConfig.Client (cloudCfg st) \<noteq> None
      \<and> dst (Copy e (snapshot (clients st) (localCfg st))) = snapshot (clients st) (localCfg st))"

text \<open>\<open>thenPoll\<close>: two calls of \<^verbatim>\<open>cloudPoll\<close> in a row; the outcome of the second.\<close>

definition thenPoll :: "env \<Rightarrow> state \<Rightarrow> poll outcome" where
  "thenPoll e st = (case cloudPoll e st of Panic \<Rightarrow> Panic | Ok p \<Rightarrow> cloudPoll e (final p))"

text \<open>The value of a header in the request of a poll ("" when there is none).\<close>

definition requestHeader :: "poll outcome \<Rightarrow> string \<Rightarrow> string" where
  "requestHeader r k =
     (case r of
        Panic \<Rightarrow> []
      | Ok p \<Rightarrow> (case request p of None \<Rightarrow> [] | Some req \<Rightarrow> get (Header req) k))"

text \<open>The token that the cache holds for a URL once a poll is over ("" after a panic).\<close>

definition etagAfter :: "poll outcome \<Rightarrow> string \<Rightarrow> string" where
  "etagAfter r url =
     (case r of Panic \<Rightarrow> [] | Ok p \<Rightarrow> get (lastCloudConfigETag (final p)) url)"

subsection \<open>A concrete installation\<close>

text \<open>
  A client whose lantern.yaml names one fronted server of its own, a cloud snapshot with
  another, and a config server that answers 304 to a request carrying the token it last
  handed out and 200 with that token otherwise.
\<close>

definition serverA :: FrontedServerInfo where
  "serverA = \<lparr>Host = ''nl.fallbacks.getiantem.org'', Port = 443, PoolSize = 30,
              MasqueradeSet = ''cloudflare'', MaxMasquerades = 20, QOS = 10, Weight = 4000\<rparr>"

definition serverB :: FrontedServerInfo where
  "serverB = \<lparr>Host = ''roundrobin.getiantem.org'', Port = 443, PoolSize = 10,
              MasqueradeSet = ''cloudflare'', MaxMasquerades = 5, QOS = 1, Weight = 100\<rparr>"

definition exClient :: ClientConfig where
  "exClient = \<lparr>DumpHeaders = False, FrontedServers = [serverB], ChainedServers = Map.empty,
               MasqueradeSets = Map.empty, ProxyAll = True, MinQOS = 3\<rparr>"

definition exLocal :: Config where
  "exLocal = \<lparr>Version = 1, CloudConfig = ''https://config.getiantem.org/cloud.yaml.gz'',
              CloudConfigCA = [], Addr = ''localhost:8787'', Role = ''client'',
              InstanceId = ''0a1b2c3d4e5f'', CpuProfile = [], MemProfile = [],
              UIAddr = ''localhost:16823'', AutoReport = Some True, AutoLaunch = Some False,
              Stats = None, Server = None, Client = Some 0, ProxiedSites = None,
              TrustedCAs = []\<rparr>"

definition exCA :: CA where
  "exCA = \<lparr>CommonName = ''Example Root'', Cert = ''-----BEGIN CERTIFICATE-----''\<rparr>"

definition exCloud :: cloudConfig where
  "exCloud = \<lparr>cloudConfig.Client = Some (exClient\<lparr>FrontedServers := [serverA], ProxyAll := False\<rparr>),
              cloudConfig.ProxiedSites = Some \<lparr>Delta = None, Cloud = [''example.org'']\<rparr>,
              cloudConfig.TrustedCAs = [Some exCA]\<rparr>"

definition exState :: state where
  "exState = \<lparr>localCfg = exLocal, cloudCfg = exCloud, clients = [exClient],
              lastCloudConfigETag = Map.empty, globalsInstanceId = [], handled = []\<rparr>"

definition exServer :: "Request \<Rightarrow> Reply" where
  "exServer req =
     (if Header req ifNoneMatch = Some ''v1'' then Response 304 Map.empty []
      else Response 200 [etag \<mapsto> ''v1''] [31, 139, 8])"

definition exParser :: "bytes \<Rightarrow> cloudConfig \<Rightarrow> cloudConfig parsed" where
  "exParser b dest =
     Parsed (dest\<lparr>cloudConfig.Client :=
               map_option (\<lambda>c. c\<lparr>FrontedServers := [serverA]\<rparr>) (cloudConfig.Client dest)\<rparr>)"

definition exEnv :: env where
  "exEnv = \<lparr>newRequestOK = (\<lambda>url. True), httpDo = exServer, gunzip = Inflated,
            yamlUnmarshal = exParser, Copy = Copied, SortFrontedServers = (\<lambda>c. c),
            SetTrustedCAsFails = (\<lambda>certs. False)\<rparr>"

text \<open>Variations: a document that does not parse, a body that is not gzip, a gzip stream
  that breaks off, trusted CAs that are refused.\<close>

definition malformedEnv :: env where
  "malformedEnv = exEnv\<lparr>yamlUnmarshal := (\<lambda>b dest. Malformed (dest\<lparr>cloudConfig.TrustedCAs := []\<rparr>))\<rparr>"

definition notGzipEnv :: env where
  "notGzipEnv = exEnv\<lparr>gunzip := (\<lambda>b. BadHeader)\<rparr>"

definition truncatedEnv :: env where
  "truncatedEnv = exEnv\<lparr>gunzip := (\<lambda>b. ReadFailed)\<rparr>"

definition refusingEnv :: env where
  "refusingEnv = exEnv\<lparr>SetTrustedCAsFails := (\<lambda>certs. True)\<rparr>"

text \<open>The installation with the token "v1", and with an older token "v0", in its cache.\<close>

definition exSeen :: state where
  "exSeen = exState\<lparr>lastCloudConfigETag := [CloudConfig exLocal \<mapsto> ''v1'']\<rparr>"

definition exStale :: state where
  "exStale = exState\<lparr>lastCloudConfigETag := [CloudConfig exLocal \<mapsto> ''v0'']\<rparr>"

text \<open>
  The installation after its first poll (\<open>exFetched\<close> is the document it fetched), and
  after \<^verbatim>\<open>Run\<close> has then published the merged configuration.
\<close>

definition exFetched :: cloudConfig where
  "exFetched =
     emptyCloudConfig\<lparr>cloudConfig.Client :=
       Some \<lparr>DumpHeaders = False, FrontedServers = [serverA], ChainedServers = Map.empty,
             MasqueradeSets = Map.empty, ProxyAll = False, MinQOS = 0\<rparr>\<rparr>"

definition exPolled :: state where
  "exPolled = exState\<lparr>cloudCfg := exFetched,
                       lastCloudConfigETag := [CloudConfig exLocal \<mapsto> ''v1'']\<rparr>"

definition exPublished :: state where
  "exPublished =
     exPolled\<lparr>clients := [exClient, exClient\<lparr>FrontedServers := [serverA]\<rparr>],
              globalsInstanceId := ''0a1b2c3d4e5f'',
              handled := [exLocal\<lparr>Client := Some 1,
                                  ProxiedSites := cloudConfig.ProxiedSites exFetched,
                                  TrustedCAs := []\<rparr>]\<rparr>"

text \<open>The installation after an edit of lantern.yaml, and after a change in the cloud.\<close>

definition exOtherLocal :: state where
  "exOtherLocal =
     exState\<lparr>localCfg := exLocal\<lparr>Addr := ''localhost:9999'', InstanceId := ''ffff''\<rparr>,
             clients := [exClient\<lparr>ProxyAll := False, FrontedServers := []\<rparr>]\<rparr>"

definition exOtherCloud :: state where
  "exOtherCloud = exState\<lparr>cloudCfg := emptyCloudConfig\<rparr>"

text \<open>
  A deep copy that, as a round trip through JSON does, replaces a byte that no UTF-8
  string holds (here 0xFF) by the three bytes of U+FFFD in the strings of a Config; and
  the installation with such a byte in its address.
\<close>

definition toValidUTF8 :: "string \<Rightarrow> string" where
  "toValidUTF8 s =
     concat (map (\<lambda>c. if c = CHR 0xFF then [CHR 0xEF, CHR 0xBF, CHR 0xBD] else [c]) s)"

definition lossyCopy :: "content \<Rightarrow> content copied" where
  "lossyCopy v =
     (case v of (c, oc) \<Rightarrow>
        Copied (c\<lparr>CloudConfig := toValidUTF8 (CloudConfig c),
                   CloudConfigCA := toValidUTF8 (CloudConfigCA c),
                   Addr := toValidUTF8 (Addr c), Role := toValidUTF8 (Role c),
                   InstanceId := toValidUTF8 (InstanceId c),
                   CpuProfile := toValidUTF8 (CpuProfile c),
                   MemProfile := toValidUTF8 (MemProfile c),
                   UIAddr := toValidUTF8 (UIAddr c)\<rparr>, oc))"

definition lossyEnv :: env where
  "lossyEnv = exEnv\<lparr>Copy := lossyCopy\<rparr>"

definition exBadAddr :: state where
  "exBadAddr = exState\<lparr>localCfg := exLocal\<lparr>Addr := [CHR 0xFF]\<rparr>\<rparr>"

text \<open>The installation whose lantern.yaml has no client section.\<close>

definition exNoSection :: state where
  "exNoSection = exState\<lparr>localCfg := exLocal\<lparr>Client := None\<rparr>\<rparr>"

text \<open>Local configurations: a client without a client section, a server, a client with
  nothing set.\<close>

definition exNoClient :: Config where
  "exNoClient = exLocal\<lparr>AutoReport := None, AutoLaunch := None, Client := None\<rparr>"

definition exServerRole :: Config where
  "exServerRole = exLocal\<lparr>Role := ''server'', AutoReport := None, AutoLaunch := None\<rparr>"

definition exUnset :: Config where
  "exUnset = exLocal\<lparr>AutoReport := None, AutoLaunch := None\<rparr>"

section \<open>Properties\<close>

subsection \<open>Roles\<close>

text \<open>
  C10. For every Config, \<^verbatim>\<open>IsUpstream\<close> is true exactly when \<^verbatim>\<open>IsDownstream\<close> is false:
  every role string other than "client" (not only "server") counts as upstream.
\<close>

theorem IsUpstream_iff_not_IsDownstream:
  "IsUpstream cfg = (\<not> IsDownstream cfg) \<and> IsUpstream cfg = (Role cfg \<noteq> ''client'')"
  by (simp add: IsUpstream_def IsDownstream_def)

lemma ApplyDefaults_fields:
  "Role (ApplyDefaults nodeID sa cfg) = (if Role cfg = [] then ''client'' else Role cfg)
   \<and> Client (ApplyDefaults nodeID sa cfg) = Client cfg
   \<and> AutoReport (ApplyDefaults nodeID sa cfg) =
       (if Client cfg \<noteq> None \<and> (Role cfg = ''client'' \<or> Role cfg = []) \<and> AutoReport cfg = None
        then Some True else AutoReport cfg)
   \<and> AutoLaunch (ApplyDefaults nodeID sa cfg) =
       (if Client cfg \<noteq> None \<and> (Role cfg = ''client'' \<or> Role cfg = []) \<and> AutoLaunch cfg = None
        then Some False else AutoLaunch cfg)"
proof -
  define cfg1 where "cfg1 = (if Role cfg = [] then cfg\<lparr>Role := ''client''\<rparr> else cfg)"
  define cfg2 where "cfg2 = (if Addr cfg1 = [] then cfg1\<lparr>Addr := ''localhost:8787''\<rparr> else cfg1)"
  define cfg3 where "cfg3 = (if UIAddr cfg2 = [] then cfg2\<lparr>UIAddr := ''localhost:16823''\<rparr> else cfg2)"
  define cfg4 where "cfg4 = (if CloudConfig cfg3 = []
                  then cfg3\<lparr>CloudConfig := ''https://config.getiantem.org/cloud.yaml.gz''\<rparr>
                  else cfg3)"
  define cfg5 where "cfg5 = (if InstanceId cfg4 = [] then cfg4\<lparr>InstanceId := nodeID\<rparr> else cfg4)"
  define stats where "stats = (case Stats cfg5 of
                     None \<Rightarrow> \<lparr>ReportingPeriod = 0, StatshubAddr = []\<rparr>
                   | Some s \<Rightarrow> s)"
  define stats' where "stats' = (if StatshubAddr stats = [] then stats\<lparr>StatshubAddr := sa\<rparr>
                    else stats)"
  define cfg6 where "cfg6 = cfg5\<lparr>Stats := Some stats'\<rparr>"
  have unfold: "ApplyDefaults nodeID sa cfg =
      (if Client cfg6 \<noteq> None \<and> Role cfg6 = ''client'' then applyClientDefaults cfg6 else cfg6)"
    unfolding ApplyDefaults_def cfg6_def stats'_def stats_def cfg5_def cfg4_def cfg3_def
      cfg2_def cfg1_def Let_def ..
  have 1: "Role cfg1 = (if Role cfg = [] then ''client'' else Role cfg)"
    "Client cfg1 = Client cfg" "AutoReport cfg1 = AutoReport cfg" "AutoLaunch cfg1 = AutoLaunch cfg"
    by (simp_all add: cfg1_def)
  have 2: "Role cfg2 = Role cfg1" "Client cfg2 = Client cfg1"
    "AutoReport cfg2 = AutoReport cfg1" "AutoLaunch cfg2 = AutoLaunch cfg1"
    by (simp_all add: cfg2_def)
  have 3: "Role cfg3 = Role cfg2" "Client cfg3 = Client cfg2"
    "AutoReport cfg3 = AutoReport cfg2" "AutoLaunch cfg3 = AutoLaunch cfg2"
    by (simp_all add: cfg3_def)
  have 4: "Role cfg4 = Role cfg3" "Client cfg4 = Client cfg3"
    "AutoReport cfg4 = AutoReport cfg3" "AutoLaunch cfg4 = AutoLaunch cfg3"
    by (simp_all add: cfg4_def)
  have 5: "Role cfg5 = Role cfg4" "Client cfg5 = Client cfg4"
    "AutoReport cfg5 = AutoReport cfg4" "AutoLaunch cfg5 = AutoLaunch cfg4"
    by (simp_all add: cfg5_def)
  have 6: "Role cfg6 = Role cfg5" "Client cfg6 = Client cfg5"
    "AutoReport cfg6 = AutoReport cfg5" "AutoLaunch cfg6 = AutoLaunch cfg5"
    by (simp_all add: cfg6_def)
  have all: "Role cfg6 = (if Role cfg = [] then ''client'' else Role cfg)"
    "Client cfg6 = Client cfg" "AutoReport cfg6 = AutoReport cfg" "AutoLaunch cfg6 = AutoLaunch cfg"
    by (simp_all only: 1 2 3 4 5 6)
  show ?thesis
    unfolding unfold by (auto simp: applyClientDefaults_def Let_def all)
qed

text \<open>
  C8, as the code has it. \<^verbatim>\<open>ApplyDefaults\<close> applies the client-only defaults under the guard
  \<^verbatim>\<open>cfg.Client != nil && cfg.Role == "client"\<close>, after an empty role has become "client".
  So for every Config with a client section whose role is "client" (or empty), AutoReport
  becomes true and AutoLaunch false where they were unset, and a value that was set is
  kept; for every other Config (role "server" or any other role, or no client section)
  AutoReport and AutoLaunch are left exactly as they were.
\<close>

theorem ApplyDefaults_client_only:
  "(Client cfg \<noteq> None \<and> (Role cfg = ''client'' \<or> Role cfg = []) \<longrightarrow>
      AutoReport (ApplyDefaults nodeID sa cfg)
        = Some (case AutoReport cfg of None \<Rightarrow> True | Some b \<Rightarrow> b)
    \<and> AutoLaunch (ApplyDefaults nodeID sa cfg)
        = Some (case AutoLaunch cfg of None \<Rightarrow> False | Some b \<Rightarrow> b))
  \<and> (Client cfg = None \<or> (Role cfg \<noteq> ''client'' \<and> Role cfg \<noteq> []) \<longrightarrow>
      AutoReport (ApplyDefaults nodeID sa cfg) = AutoReport cfg
    \<and> AutoLaunch (ApplyDefaults nodeID sa cfg) = AutoLaunch cfg)"
  using ApplyDefaults_fields [of nodeID sa cfg] by (auto split: option.splits)

text \<open>
  The theorem of C8 at a client configuration with nothing set, and at a server configuration.
\<close>

theorem ApplyDefaults_client_only_witness:
  "Role exUnset = ''client'' \<and> Client exUnset \<noteq> None \<and> AutoReport exUnset = None
   \<and> AutoReport (ApplyDefaults ''0a'' ''hub'' exUnset) = Some True
   \<and> AutoLaunch (ApplyDefaults ''0a'' ''hub'' exUnset) = Some False
   \<and> Role exServerRole = ''server''
   \<and> AutoReport (ApplyDefaults ''0a'' ''hub'' exServerRole) = None
   \<and> AutoLaunch (ApplyDefaults ''0a'' ''hub'' exServerRole) = None"
  using ApplyDefaults_client_only [of exUnset "''0a''" "''hub''"]
    ApplyDefaults_client_only [of exServerRole "''0a''" "''hub''"]
  by (simp add: exUnset_def exServerRole_def exLocal_def)

text \<open>
  C8 as stated fails: a Config whose role is "client" but which has no client section
  keeps AutoReport and AutoLaunch unset.
\<close>

theorem ApplyDefaults_client_without_section:
  "Role exNoClient = ''client'' \<and> AutoReport exNoClient = None \<and> AutoLaunch exNoClient = None
   \<and> AutoReport (ApplyDefaults ''0a'' ''hub'' exNoClient) = None
   \<and> AutoLaunch (ApplyDefaults ''0a'' ''hub'' exNoClient) = None"
  using ApplyDefaults_fields [of "''0a''" "''hub''" exNoClient]
  by (simp add: exNoClient_def exLocal_def)

subsection \<open>The poll schedule\<close>

lemma int64_id: "- (2 ^ 63) \<le> x \<Longrightarrow> x < 2 ^ 63 \<Longrightarrow> int64 x = x"
  unfolding int64_def by (rule signed_take_bit_int_eq_self)

lemma smod_nonneg: "0 \<le> (a::int) \<Longrightarrow> 0 < n \<Longrightarrow> a smod n = a mod n"
  by (simp add: signed_modulo_int_def sgn_if)

text \<open>
  C7. Whatever value the generator draws, \<^verbatim>\<open>cloudPollSleepTime\<close> returns (it does not
  panic), and the delay lies in [CloudConfigPollInterval / 2, CloudConfigPollInterval * 1.5):
  for the interval of one minute, between 30 s included and 90 s excluded, in
  nanoseconds. The sum stays far from the int64 bound, so nothing wraps.
\<close>

theorem cloudPollSleepTime_bounds:
  "\<exists>d. cloudPollSleepTime v = Some d
       \<and> CloudConfigPollInterval sdiv 2 \<le> d \<and> 2 * d < 3 * CloudConfigPollInterval
       \<and> 30 * 1000000000 \<le> d \<and> d < 90 * 1000000000"
proof -
  let ?n = "60000000000 :: int"
  have n: "CloudConfigPollInterval = ?n"
    by (simp add: CloudConfigPollInterval_def)
  have r0: "0 \<le> uint v smod ?n" and r1: "uint v smod ?n < ?n"
    by (simp_all add: smod_nonneg)
  have h: "?n sdiv 2 = 30000000000"
    by (simp add: signed_divide_int_def)
  have "int64 (?n sdiv 2 + uint v smod ?n) = ?n sdiv 2 + uint v smod ?n"
    using r0 r1 h by (intro int64_id) simp_all
  then show ?thesis
    using r0 r1 h by (simp add: cloudPollSleepTime_def Int63n_def n)
qed

subsection \<open>Fetching the cloud configuration\<close>

lemma fetch_sentD:
  assumes "sent (fetchCloudConfig e url st) = Some req"
  shows "newRequestOK e url"
    and "req = \<lparr>Method = ''GET'', URL = url,
               Header = (if get (lastCloudConfigETag st) url \<noteq> []
                         then [ifNoneMatch \<mapsto> get (lastCloudConfigETag st) url] else Map.empty),
               Close = True\<rparr>"
  using assms
  by (auto simp: fetchCloudConfig_def Let_def split: if_splits Reply.splits gz.splits)

lemma fetch_304:
  assumes "sent (fetchCloudConfig e url st) = Some req"
    and "httpDo e req = Response 304 hdr body"
  shows "fetchCloudConfig e url st = \<lparr>sent = Some req, returned = Inr None, after = st\<rparr>"
  using fetch_sentD [OF assms(1)] assms(2)
  by (cases "get (lastCloudConfigETag st) url = []") (simp_all add: fetchCloudConfig_def Let_def)

lemma fetch_200:
  assumes "sent (fetchCloudConfig e url st) = Some req"
    and "httpDo e req = Response 200 hdr body"
  shows "fetchCloudConfig e url st =
           \<lparr>sent = Some req,
            returned = (case gunzip e body of
                          BadHeader \<Rightarrow> Inl GzipOpenError
                        | ReadFailed \<Rightarrow> Inl GzipReadError
                        | Inflated b \<Rightarrow> Inr (Some b)),
            after = st\<lparr>lastCloudConfigETag := (lastCloudConfigETag st)(url \<mapsto> get hdr etag)\<rparr>\<rparr>"
  using fetch_sentD [OF assms(1)] assms(2)
  by (cases "get (lastCloudConfigETag st) url = []")
    (simp_all add: fetchCloudConfig_def Let_def split: gz.splits)

text \<open>
  C9. For every request that is answered with status 200, \<^verbatim>\<open>fetchCloudConfig\<close> leaves the
  cache entry of the URL at the value of the response's \<^verbatim>\<open>X-Lantern-Etag\<close> header (the
  header the code reads the token from), whatever the decompression of the body then
  gives. In particular, when the body is not valid gzip, be it that \<^verbatim>\<open>gzip.NewReader\<close>
  refuses it or that \<^verbatim>\<open>ioutil.ReadAll\<close> fails on it, the call returns that error and the
  entry already holds the new token; when the body decompresses the call returns the bytes.
\<close>

theorem fetchCloudConfig_records_etag_first:
  assumes "sent (fetchCloudConfig e url st) = Some req"
    and "httpDo e req = Response 200 hdr body"
  shows "lastCloudConfigETag (after (fetchCloudConfig e url st))
           = (lastCloudConfigETag st)(url \<mapsto> get hdr ''X-Lantern-Etag'')
       \<and> get (lastCloudConfigETag (after (fetchCloudConfig e url st))) url
           = get hdr ''X-Lantern-Etag''
       \<and> (gunzip e body = BadHeader \<longrightarrow>
            returned (fetchCloudConfig e url st) = Inl GzipOpenError)
       \<and> (gunzip e body = ReadFailed \<longrightarrow>
            returned (fetchCloudConfig e url st) = Inl GzipReadError)
       \<and> (gunzip e body = Inflated b \<longrightarrow>
            returned (fetchCloudConfig e url st) = Inr (Some b))"
  by (simp add: fetch_200 [OF assms] get_def etag_def)

lemma exFreshRequest:
  assumes "newRequestOK e = (\<lambda>url. True)" and "httpDo e = exServer"
  shows "sent (fetchCloudConfig e (CloudConfig exLocal) exState)
     = Some \<lparr>Method = ''GET'', URL = CloudConfig exLocal, Header = Map.empty, Close = True\<rparr>"
    and "httpDo e \<lparr>Method = ''GET'', URL = CloudConfig exLocal, Header = Map.empty, Close = True\<rparr>
     = Response 200 [''X-Lantern-Etag'' \<mapsto> ''v1''] [31, 139, 8]"
  by (simp_all add: fetchCloudConfig_def Let_def assms exState_def get_def exServer_def
      ifNoneMatch_def etag_def split: gz.splits)

text \<open>
  The theorem of C9 at a fresh installation whose server sends a body that is not gzip,
  one whose gzip stream breaks off, and one that decompresses: the token is "" before and
  "v1" after in all three.
\<close>

theorem fetchCloudConfig_records_etag_first_witness:
  "get (lastCloudConfigETag exState) (CloudConfig exLocal) = []
   \<and> returned (fetchCloudConfig notGzipEnv (CloudConfig exLocal) exState) = Inl GzipOpenError
   \<and> get (lastCloudConfigETag (after (fetchCloudConfig notGzipEnv (CloudConfig exLocal) exState)))
        (CloudConfig exLocal) = ''v1''
   \<and> returned (fetchCloudConfig truncatedEnv (CloudConfig exLocal) exState) = Inl GzipReadError
   \<and> get (lastCloudConfigETag (after (fetchCloudConfig truncatedEnv (CloudConfig exLocal) exState)))
        (CloudConfig exLocal) = ''v1''
   \<and> returned (fetchCloudConfig exEnv (CloudConfig exLocal) exState) = Inr (Some [31, 139, 8])
   \<and> get (lastCloudConfigETag (after (fetchCloudConfig exEnv (CloudConfig exLocal) exState)))
        (CloudConfig exLocal) = ''v1''"
proof -
  have n: "newRequestOK notGzipEnv = (\<lambda>url. True)" "httpDo notGzipEnv = exServer"
    "gunzip notGzipEnv [31, 139, 8] = BadHeader"
    by (simp_all add: notGzipEnv_def exEnv_def)
  have t: "newRequestOK truncatedEnv = (\<lambda>url. True)" "httpDo truncatedEnv = exServer"
    "gunzip truncatedEnv [31, 139, 8] = ReadFailed"
    by (simp_all add: truncatedEnv_def exEnv_def)
  have x: "newRequestOK exEnv = (\<lambda>url. True)" "httpDo exEnv = exServer"
    "gunzip exEnv [31, 139, 8] = Inflated [31, 139, 8]"
    by (simp_all add: exEnv_def)
  show ?thesis
    using fetchCloudConfig_records_etag_first [OF exFreshRequest [OF n(1,2)], of "[31, 139, 8]"]
      fetchCloudConfig_records_etag_first [OF exFreshRequest [OF t(1,2)], of "[31, 139, 8]"]
      fetchCloudConfig_records_etag_first [OF exFreshRequest [OF x(1,2)], of "[31, 139, 8]"]
    by (simp add: n(3) t(3) x(3) get_def exState_def)
qed

subsection \<open>Polling\<close>

lemma cloudPoll_304:
  assumes "sent (fetchCloudConfig e (CloudConfig (localCfg st)) st) = Some req"
    and "httpDo e req = Response 304 hdr body"
  shows "cloudPoll e st = Ok \<lparr>request = Some req, signal = False, final = st\<rparr>"
  by (simp add: cloudPoll_def fetch_304 [OF assms])

lemma cloudPoll_200:
  assumes "sent (fetchCloudConfig e (CloudConfig (localCfg st)) st) = Some req"
    and "httpDo e req = Response 200 hdr body"
    and "gunzip e body = Inflated y"
  shows "cloudPoll e st =
     (case yamlUnmarshal e y emptyCloudConfig of
        Malformed u \<Rightarrow>
          Ok \<lparr>request = Some req, signal = False,
              final = st\<lparr>lastCloudConfigETag :=
                (lastCloudConfigETag st)(CloudConfig (localCfg st) \<mapsto> get hdr etag)\<rparr>\<rparr>
      | Parsed newCfg \<Rightarrow>
          (case cloudConfig.Client newCfg of
             None \<Rightarrow> Panic
           | Some c \<Rightarrow>
               Ok \<lparr>request = Some req, signal = True,
                   final = st\<lparr>lastCloudConfigETag :=
                       (lastCloudConfigETag st)(CloudConfig (localCfg st) \<mapsto> get hdr etag),
                     cloudCfg := newCfg\<lparr>cloudConfig.Client := Some (SortFrontedServers e c)\<rparr>\<rparr>\<rparr>))"
  by (simp add: cloudPoll_def fetch_200 [OF assms(1,2)] assms(3) fromBytes_def
      split: parsed.splits option.splits)

lemma exRequest:
  "sent (fetchCloudConfig exEnv (CloudConfig exLocal) exSeen)
     = Some \<lparr>Method = ''GET'', URL = CloudConfig exLocal,
             Header = [''X-Lantern-If-None-Match'' \<mapsto> ''v1''], Close = True\<rparr>"
  by (simp add: fetchCloudConfig_def exEnv_def exSeen_def exState_def get_def exServer_def
      ifNoneMatch_def)

text \<open>
  C4. For every poll whose request is answered with status 304, \<^verbatim>\<open>cloudPoll\<close> sends nothing
  on \<^verbatim>\<open>cloudConfigChanged\<close> and leaves the whole package state as it was: the stored cloud
  configuration is not replaced and the ETag cache is not modified.
\<close>

theorem cloudPoll_not_modified:
  assumes "sent (fetchCloudConfig e (CloudConfig (localCfg st)) st) = Some req"
    and "httpDo e req = Response 304 hdr body"
  shows "cloudPoll e st = Ok \<lparr>request = Some req, signal = False, final = st\<rparr>"
  using assms by (rule cloudPoll_304)

text \<open>The theorem of C4 at the installation that holds the token "v1".\<close>

theorem cloudPoll_not_modified_witness:
  "cloudPoll exEnv exSeen =
     Ok \<lparr>request = Some \<lparr>Method = ''GET'', URL = CloudConfig exLocal,
                          Header = [''X-Lantern-If-None-Match'' \<mapsto> ''v1''], Close = True\<rparr>,
         signal = False, final = exSeen\<rparr>"
proof -
  let ?req = "\<lparr>Method = ''GET'', URL = CloudConfig exLocal,
               Header = [''X-Lantern-If-None-Match'' \<mapsto> ''v1''], Close = True\<rparr>"
  have l: "localCfg exSeen = exLocal"
    by (simp add: exSeen_def exState_def)
  have r: "httpDo exEnv ?req = Response 304 Map.empty []"
    by (simp add: exEnv_def exServer_def ifNoneMatch_def)
  show ?thesis
    using cloudPoll_not_modified [of exEnv exSeen ?req Map.empty "[]"] exRequest r
    by (simp add: l)
qed


text \<open>
  C3, as the code has it. For every poll whose request is answered with status 200 and a
  body that decompresses but does not parse, \<^verbatim>\<open>cloudPoll\<close> sends nothing on
  \<^verbatim>\<open>cloudConfigChanged\<close> and leaves the stored cloud configuration, the local
  configuration and everything handed to the update handler as they were; the struct the
  parser half filled is dropped. The ETag cache entry of the URL, however, is set to the
  \<^verbatim>\<open>X-Lantern-Etag\<close> header of the response (\<^verbatim>\<open>fetchCloudConfig\<close> records it on every 200),
  and the entries of other URLs are untouched. That is the only change to the state.
\<close>

theorem cloudPoll_malformed:
  assumes "sent (fetchCloudConfig e (CloudConfig (localCfg st)) st) = Some req"
    and "httpDo e req = Response 200 hdr body"
    and "gunzip e body = Inflated y"
    and "yamlUnmarshal e y emptyCloudConfig = Malformed u"
  shows "cloudPoll e st =
           Ok \<lparr>request = Some req, signal = False,
               final = st\<lparr>lastCloudConfigETag :=
                 (lastCloudConfigETag st)(CloudConfig (localCfg st) \<mapsto> get hdr etag)\<rparr>\<rparr>"
  by (simp add: cloudPoll_200 [OF assms(1-3)] assms(4))

lemma malformed_poll:
  "sent (fetchCloudConfig malformedEnv (CloudConfig exLocal) exStale)
     = Some \<lparr>Method = ''GET'', URL = CloudConfig exLocal,
             Header = [''X-Lantern-If-None-Match'' \<mapsto> ''v0''], Close = True\<rparr>"
  "httpDo malformedEnv \<lparr>Method = ''GET'', URL = CloudConfig exLocal,
             Header = [''X-Lantern-If-None-Match'' \<mapsto> ''v0''], Close = True\<rparr>
     = Response 200 [etag \<mapsto> ''v1''] [31, 139, 8]"
  "gunzip malformedEnv [31, 139, 8] = Inflated [31, 139, 8]"
  "yamlUnmarshal malformedEnv [31, 139, 8] emptyCloudConfig
     = Malformed (emptyCloudConfig\<lparr>cloudConfig.TrustedCAs := []\<rparr>)"
  "localCfg exStale = exLocal"
  by (simp_all add: fetchCloudConfig_def malformedEnv_def exEnv_def exStale_def exState_def
      get_def exServer_def ifNoneMatch_def)

text \<open>The theorem of C3 at the installation that holds the older token "v0".\<close>

theorem cloudPoll_malformed_witness:
  "cloudPoll malformedEnv exStale =
     Ok \<lparr>request = Some \<lparr>Method = ''GET'', URL = CloudConfig exLocal,
                          Header = [''X-Lantern-If-None-Match'' \<mapsto> ''v0''], Close = True\<rparr>,
         signal = False,
         final = exStale\<lparr>lastCloudConfigETag := [CloudConfig exLocal \<mapsto> ''v1'']\<rparr>\<rparr>"
proof -
  have s: "sent (fetchCloudConfig malformedEnv (CloudConfig (localCfg exStale)) exStale)
     = Some \<lparr>Method = ''GET'', URL = CloudConfig exLocal,
             Header = [''X-Lantern-If-None-Match'' \<mapsto> ''v0''], Close = True\<rparr>"
    by (simp add: malformed_poll(1,5))
  have m: "(lastCloudConfigETag exStale)(CloudConfig (localCfg exStale) \<mapsto> get [etag \<mapsto> ''v1''] etag)
      = [CloudConfig exLocal \<mapsto> ''v1'']"
    by (simp add: exStale_def exState_def get_def)
  show ?thesis
    using cloudPoll_malformed [OF s malformed_poll(2,3,4)] by (simp only: m)
qed


text \<open>
  C3 as stated fails: the document does not parse, and the cache entry of the URL, "v0"
  before the poll, is "v1" after it.
\<close>

theorem cloudPoll_malformed_changes_etag:
  "fromBytes malformedEnv [31, 139, 8] emptyCloudConfig
     = (Some UnmarshalError, emptyCloudConfig\<lparr>cloudConfig.TrustedCAs := []\<rparr>)
   \<and> get (lastCloudConfigETag exStale) (CloudConfig exLocal) = ''v0''
   \<and> etagAfter (cloudPoll malformedEnv exStale) (CloudConfig exLocal) = ''v1''"
proof -
  have s: "sent (fetchCloudConfig malformedEnv (CloudConfig (localCfg exStale)) exStale)
     = Some \<lparr>Method = ''GET'', URL = CloudConfig exLocal,
             Header = [''X-Lantern-If-None-Match'' \<mapsto> ''v0''], Close = True\<rparr>"
    by (simp add: malformed_poll(1,5))
  have "etagAfter (cloudPoll malformedEnv exStale) (CloudConfig exLocal) = ''v1''"
    unfolding cloudPoll_200 [OF s malformed_poll(2,3)]
    by (simp add: malformed_poll(4,5) etagAfter_def get_def)
  then show ?thesis
    by (simp add: get_def fromBytes_def malformed_poll(4) exStale_def)
qed

subsection \<open>Merging\<close>

text \<open>
  With a deep copy that hands back what it is given, \<^verbatim>\<open>mergedConfig\<close> returns exactly when
  the local configuration and the cloud snapshot both have a client section; otherwise
  one of the assignments through \<^verbatim>\<open>merged.Client\<close> or the reads through \<^verbatim>\<open>cloud.Client\<close>
  dereferences nil. Whatever the deep copy does, the cloud part of a configuration that
  \<^verbatim>\<open>mergedConfig\<close> returns is that of the cloud snapshot.
\<close>

lemma mergedConfig_OkD:
  assumes "mergedConfig e st = Ok (m, st')"
  shows "\<exists>d c cc. dst (Copy e (snapshot (clients st) (localCfg st))) = (d, Some c)
           \<and> (Client (localCfg st) = None \<or> load (clients st) (Client (localCfg st)) \<noteq> None)
           \<and> cloudConfig.Client (cloudCfg st) = Some cc
           \<and> m = d\<lparr>Client := Some (length (clients st)),
                    ProxiedSites := cloudConfig.ProxiedSites (cloudCfg st),
                    TrustedCAs := cloudConfig.TrustedCAs (cloudCfg st)\<rparr>
           \<and> st' = st\<lparr>clients := clients st @
                  [c\<lparr>FrontedServers := FrontedServers cc,
                     ChainedServers := ChainedServers cc,
                     MasqueradeSets := MasqueradeSets cc\<rparr>]\<rparr>"
  using assms
  by (auto simp: mergedConfig_def deepcopy_def load_def Let_def
           split: option.splits if_splits outcome.splits prod.splits)

lemma mergedConfig_OkI:
  assumes "dst (Copy e (snapshot (clients st) (localCfg st))) = (d, Some c)"
    and "Client (localCfg st) = None \<or> load (clients st) (Client (localCfg st)) \<noteq> None"
    and "cloudConfig.Client (cloudCfg st) = Some cc"
  shows "mergedConfig e st =
           Ok (d\<lparr>Client := Some (length (clients st)),
                 ProxiedSites := cloudConfig.ProxiedSites (cloudCfg st),
                 TrustedCAs := cloudConfig.TrustedCAs (cloudCfg st)\<rparr>,
               st\<lparr>clients := clients st @
                  [c\<lparr>FrontedServers := FrontedServers cc,
                     ChainedServers := ChainedServers cc,
                     MasqueradeSets := MasqueradeSets cc\<rparr>]\<rparr>)"
  using assms
  by (auto simp: mergedConfig_def deepcopy_def load_def Let_def)

lemma mergedConfig_cloud_nil:
  assumes "cloudConfig.Client (cloudCfg st) = None"
  shows "mergedConfig e st = Panic"
  using assms
  by (auto simp: mergedConfig_def deepcopy_def Let_def
           split: option.splits outcome.splits prod.splits)

lemma mergedConfig_local_nil:
  assumes "load (clients st) (Client (localCfg st)) = None"
    and "dst (Copy e (snapshot (clients st) (localCfg st))) = snapshot (clients st) (localCfg st)"
  shows "mergedConfig e st = Panic"
  using assms
  by (auto simp: mergedConfig_def deepcopy_def snapshot_def load_def Let_def
           split: option.splits outcome.splits prod.splits if_splits)

lemma mergedConfig_mergeable:
  assumes "mergeable e st"
  shows "\<exists>lc cc. load (clients st) (Client (localCfg st)) = Some lc
           \<and> cloudConfig.Client (cloudCfg st) = Some cc
           \<and> mergedConfig e st =
               Ok ((localCfg st)\<lparr>Client := Some (length (clients st)),
                                 ProxiedSites := cloudConfig.ProxiedSites (cloudCfg st),
                                 TrustedCAs := cloudConfig.TrustedCAs (cloudCfg st)\<rparr>,
                   st\<lparr>clients := clients st @
                      [lc\<lparr>FrontedServers := FrontedServers cc,
                          ChainedServers := ChainedServers cc,
                          MasqueradeSets := MasqueradeSets cc\<rparr>]\<rparr>)"
proof -
  from assms obtain lc cc where
    lc: "load (clients st) (Client (localCfg st)) = Some lc"
    and cc: "cloudConfig.Client (cloudCfg st) = Some cc"
    and cp: "dst (Copy e (snapshot (clients st) (localCfg st)))
               = ((localCfg st)\<lparr>Client := None\<rparr>, Some lc)"
    by (auto simp: mergeable_def snapshot_def)
  have v: "Client (localCfg st) = None \<or> load (clients st) (Client (localCfg st)) \<noteq> None"
    by (simp add: lc)
  show ?thesis
    using lc cc by (simp add: mergedConfig_OkI [OF cp v cc])
qed

lemma mergedConfig_parts:
  assumes "mergeable e st"
  shows "\<exists>m st'. mergedConfig e st = Ok (m, st')
          \<and> localPart (clients st') m = localPart (clients st) (localCfg st)
          \<and> cloudPart (clients st') m = cloudOf (cloudCfg st)"
proof -
  from mergedConfig_mergeable [OF assms] obtain lc cc where
    lc: "load (clients st) (Client (localCfg st)) = Some lc"
    and cc: "cloudConfig.Client (cloudCfg st) = Some cc"
    and m: "mergedConfig e st =
               Ok ((localCfg st)\<lparr>Client := Some (length (clients st)),
                                 ProxiedSites := cloudConfig.ProxiedSites (cloudCfg st),
                                 TrustedCAs := cloudConfig.TrustedCAs (cloudCfg st)\<rparr>,
                   st\<lparr>clients := clients st @
                      [lc\<lparr>FrontedServers := FrontedServers cc,
                          ChainedServers := ChainedServers cc,
                          MasqueradeSets := MasqueradeSets cc\<rparr>]\<rparr>)"
    by blast
  show ?thesis
    unfolding m by (simp add: localPart_def cloudPart_def cloudOf_def lc cc) (simp add: load_def)
qed

lemma mergedConfig_cloudPart:
  assumes "mergedConfig e st = Ok (m, st')"
  shows "cloudPart (clients st') m = cloudOf (cloudCfg st)"
  using mergedConfig_OkD [OF assms]
  by (auto simp: cloudPart_def cloudOf_def load_def)

lemma exCopied:
  "Copy exEnv = Copied" "Copy refusingEnv = Copied" "dst (Copied v) = v"
  by (simp_all add: exEnv_def refusingEnv_def dst_def)

lemma exMerged:
  assumes "Copy e = Copied"
  shows "mergedConfig e exState =
     Ok (exLocal\<lparr>Client := Some 1, ProxiedSites := cloudConfig.ProxiedSites exCloud,
                 TrustedCAs := cloudConfig.TrustedCAs exCloud\<rparr>,
         exState\<lparr>clients := [exClient, exClient\<lparr>FrontedServers := [serverA]\<rparr>]\<rparr>)"
proof -
  have a: "dst (Copy e (snapshot (clients exState) (localCfg exState)))
             = (exLocal\<lparr>Client := None\<rparr>, Some exClient)"
    "Client (localCfg exState) = None
       \<or> load (clients exState) (Client (localCfg exState)) \<noteq> None"
    "cloudConfig.Client (cloudCfg exState)
       = Some (exClient\<lparr>FrontedServers := [serverA], ProxyAll := False\<rparr>)"
    by (simp_all add: assms exCopied snapshot_def load_def exState_def exLocal_def exCloud_def)
  show ?thesis
    unfolding mergedConfig_OkI [OF a]
    by (simp add: exState_def exClient_def)
qed

lemma exMergedOtherLocal:
  "mergedConfig exEnv exOtherLocal =
     Ok (exLocal\<lparr>Addr := ''localhost:9999'', InstanceId := ''ffff'', Client := Some 1,
                 ProxiedSites := cloudConfig.ProxiedSites exCloud,
                 TrustedCAs := cloudConfig.TrustedCAs exCloud\<rparr>,
         exOtherLocal\<lparr>clients := [exClient\<lparr>ProxyAll := False, FrontedServers := []\<rparr>,
                                 exClient\<lparr>ProxyAll := False, FrontedServers := [serverA]\<rparr>]\<rparr>)"
proof -
  have a: "dst (Copy exEnv (snapshot (clients exOtherLocal) (localCfg exOtherLocal)))
             = (exLocal\<lparr>Addr := ''localhost:9999'', InstanceId := ''ffff'', Client := None\<rparr>,
                Some (exClient\<lparr>ProxyAll := False, FrontedServers := []\<rparr>))"
    "Client (localCfg exOtherLocal) = None
       \<or> load (clients exOtherLocal) (Client (localCfg exOtherLocal)) \<noteq> None"
    "cloudConfig.Client (cloudCfg exOtherLocal)
       = Some (exClient\<lparr>FrontedServers := [serverA], ProxyAll := False\<rparr>)"
    by (simp_all add: exCopied snapshot_def load_def exOtherLocal_def exState_def exLocal_def
        exCloud_def)
  show ?thesis
    unfolding mergedConfig_OkI [OF a]
    by (simp add: exOtherLocal_def exState_def exClient_def)
qed

lemma exMergedOtherCloud:
  "mergedConfig exEnv exOtherCloud =
     Ok (exLocal\<lparr>Client := Some 1,
                 ProxiedSites := Some \<lparr>Delta = Some \<lparr>Additions = [], Deletions = []\<rparr>, Cloud = []\<rparr>,
                 TrustedCAs := []\<rparr>,
         exOtherCloud\<lparr>clients := [exClient, exClient\<lparr>FrontedServers := []\<rparr>]\<rparr>)"
proof -
  have a: "dst (Copy exEnv (snapshot (clients exOtherCloud) (localCfg exOtherCloud)))
             = (exLocal\<lparr>Client := None\<rparr>, Some exClient)"
    "Client (localCfg exOtherCloud) = None
       \<or> load (clients exOtherCloud) (Client (localCfg exOtherCloud)) \<noteq> None"
    "cloudConfig.Client (cloudCfg exOtherCloud)
       = Some \<lparr>DumpHeaders = False, FrontedServers = [], ChainedServers = Map.empty,
              MasqueradeSets = Map.empty, ProxyAll = False, MinQOS = 0\<rparr>"
    by (simp_all add: exCopied snapshot_def load_def exOtherCloud_def exState_def exLocal_def
        emptyCloudConfig_def)
  show ?thesis
    unfolding mergedConfig_OkI [OF a]
    by (simp add: exOtherCloud_def exState_def exClient_def emptyCloudConfig_def)
qed

lemma exMergeable:
  "mergeable exEnv exState" "mergeable exEnv exOtherLocal" "mergeable exEnv exOtherCloud"
  by (simp_all add: mergeable_def exCopied load_def exState_def exOtherLocal_def exOtherCloud_def
      exLocal_def exCloud_def emptyCloudConfig_def)

text \<open>
  C1, as the code has it. For every pair of a local Config and a cloud snapshot that both
  have a client section, and whose local Config the deep copy hands back unchanged
  (\<open>mergeable\<close>), \<^verbatim>\<open>mergedConfig\<close> returns a configuration, and every field of it comes from
  one input: role, addresses, instance id, profiling, UI address, stats and the other
  fields of \<open>localPart\<close> are those of the local Config, and fronted servers, chained
  servers, masquerade sets, proxied sites and trusted CAs are those of the cloud snapshot.
  Hence the merge of any other such pair with the same cloud snapshot has the same cloud
  part, and the merge of any other such pair with the same local part has the same local
  part.
\<close>

theorem mergedConfig_field_sources:
  assumes "mergeable e st" and "mergeable e su"
  shows "\<exists>m st' n su'.
           mergedConfig e st = Ok (m, st') \<and> mergedConfig e su = Ok (n, su')
         \<and> localPart (clients st') m = localPart (clients st) (localCfg st)
         \<and> cloudPart (clients st') m = cloudOf (cloudCfg st)
         \<and> (cloudCfg su = cloudCfg st \<longrightarrow> cloudPart (clients su') n = cloudPart (clients st') m)
         \<and> (localPart (clients su) (localCfg su) = localPart (clients st) (localCfg st) \<longrightarrow>
              localPart (clients su') n = localPart (clients st') m)"
proof -
  from mergedConfig_parts [OF assms(1)] obtain m st' where
    1: "mergedConfig e st = Ok (m, st')"
      "localPart (clients st') m = localPart (clients st) (localCfg st)"
      "cloudPart (clients st') m = cloudOf (cloudCfg st)"
    by blast
  from mergedConfig_parts [OF assms(2)] obtain n su' where
    2: "mergedConfig e su = Ok (n, su')"
      "localPart (clients su') n = localPart (clients su) (localCfg su)"
      "cloudPart (clients su') n = cloudOf (cloudCfg su)"
    by blast
  show ?thesis
    using 1 2 by simp
qed

text \<open>
  The theorem of C1 at the installation, after an edit of lantern.yaml (the local part of
  the merge changes, the cloud part does not) and after a change in the cloud (the other
  way round).
\<close>

theorem mergedConfig_field_sources_witness:
  "mergeable exEnv exState \<and> mergeable exEnv exOtherLocal \<and> mergeable exEnv exOtherCloud
   \<and> (\<exists>m st' n su' k sk'.
        mergedConfig exEnv exState = Ok (m, st')
      \<and> mergedConfig exEnv exOtherLocal = Ok (n, su')
      \<and> mergedConfig exEnv exOtherCloud = Ok (k, sk')
      \<and> localPart (clients st') m = localPart (clients exState) exLocal
      \<and> cloudPart (clients st') m = cloudOf exCloud
      \<and> cloudPart (clients su') n = cloudPart (clients st') m
      \<and> localPart (clients su') n \<noteq> localPart (clients st') m
      \<and> localPart (clients sk') k = localPart (clients st') m
      \<and> cloudPart (clients sk') k \<noteq> cloudPart (clients st') m)"
proof -
  have c: "cloudCfg exOtherLocal = cloudCfg exState" "cloudCfg exState = exCloud"
    "localCfg exState = exLocal"
    by (simp_all add: exOtherLocal_def exState_def)
  have l: "localPart (clients exOtherCloud) (localCfg exOtherCloud)
             = localPart (clients exState) (localCfg exState)"
    by (simp add: exOtherCloud_def)
  have d1: "localPart (clients exOtherLocal) (localCfg exOtherLocal)
             \<noteq> localPart (clients exState) (localCfg exState)"
    by (simp add: localPart_def exOtherLocal_def exState_def exLocal_def)
  have d2: "cloudOf (cloudCfg exOtherCloud) \<noteq> cloudOf (cloudCfg exState)"
    by (simp add: cloudOf_def exOtherCloud_def exState_def exCloud_def emptyCloudConfig_def)
  note m = exMerged [OF exCopied(1)]
  note t1 = mergedConfig_field_sources [OF exMergeable(1) exMergeable(2),
      unfolded m exMergedOtherLocal]
  note t2 = mergedConfig_field_sources [OF exMergeable(1) exMergeable(3),
      unfolded m exMergedOtherCloud]
  note t3 = mergedConfig_field_sources [OF exMergeable(2) exMergeable(1),
      unfolded m exMergedOtherLocal]
  note t4 = mergedConfig_field_sources [OF exMergeable(3) exMergeable(1),
      unfolded m exMergedOtherCloud]
  show ?thesis
    apply (intro exI conjI)
               apply (rule exMergeable)+
            apply (rule m)
           apply (rule exMergedOtherLocal)
          apply (rule exMergedOtherCloud)
    using t1 c apply simp
    using t1 c apply simp
    using t1 c apply simp
    using t1 t3 d1 apply simp
    using t2 l apply simp
    using t2 t4 d2 apply simp
    done
qed

lemma toValidUTF8_FF: "toValidUTF8 [CHR 0xFF] = [CHR 0xEF, CHR 0xBF, CHR 0xBD]"
  by (simp add: toValidUTF8_def)

lemma toValidUTF8_ascii:
  "toValidUTF8 ''https://config.getiantem.org/cloud.yaml.gz''
     = ''https://config.getiantem.org/cloud.yaml.gz''"
  "toValidUTF8 [] = []" "toValidUTF8 ''client'' = ''client''"
  "toValidUTF8 ''0a1b2c3d4e5f'' = ''0a1b2c3d4e5f''"
  "toValidUTF8 ''localhost:16823'' = ''localhost:16823''"
  by (simp_all add: toValidUTF8_def)

text \<open>
  C1 as stated fails. For a local Config without a client section \<^verbatim>\<open>mergedConfig\<close>
  panics: no merged configuration is produced. And where the deep copy does not hand
  the local Config back as it is (an address that holds a byte which is not UTF-8, under a
  copy that substitutes U+FFFD for it), the address of the merged configuration is not
  the address of the local Config.
\<close>

theorem mergedConfig_outside_domain:
  "mergedConfig exEnv exNoSection = Panic
   \<and> Addr (localCfg exBadAddr) = [CHR 0xFF]
   \<and> mergedConfig lossyEnv exBadAddr =
       Ok (exLocal\<lparr>Addr := [CHR 0xEF, CHR 0xBF, CHR 0xBD], Client := Some 1,
                   ProxiedSites := cloudConfig.ProxiedSites exCloud,
                   TrustedCAs := cloudConfig.TrustedCAs exCloud\<rparr>,
           exBadAddr\<lparr>clients := [exClient, exClient\<lparr>FrontedServers := [serverA]\<rparr>]\<rparr>)"
proof -
  have p: "mergedConfig exEnv exNoSection = Panic"
    by (rule mergedConfig_local_nil)
      (simp_all add: exCopied load_def exNoSection_def exState_def)
  have a: "dst (Copy lossyEnv (snapshot (clients exBadAddr) (localCfg exBadAddr)))
             = (exLocal\<lparr>Addr := [CHR 0xEF, CHR 0xBF, CHR 0xBD], Client := None\<rparr>, Some exClient)"
    "Client (localCfg exBadAddr) = None
       \<or> load (clients exBadAddr) (Client (localCfg exBadAddr)) \<noteq> None"
    "cloudConfig.Client (cloudCfg exBadAddr)
       = Some (exClient\<lparr>FrontedServers := [serverA], ProxyAll := False\<rparr>)"
    by (simp_all add: lossyEnv_def lossyCopy_def dst_def snapshot_def load_def exBadAddr_def
        exState_def exLocal_def exCloud_def toValidUTF8_FF toValidUTF8_ascii)
  have "mergedConfig lossyEnv exBadAddr =
       Ok (exLocal\<lparr>Addr := [CHR 0xEF, CHR 0xBF, CHR 0xBD], Client := Some 1,
                   ProxiedSites := cloudConfig.ProxiedSites exCloud,
                   TrustedCAs := cloudConfig.TrustedCAs exCloud\<rparr>,
           exBadAddr\<lparr>clients := [exClient, exClient\<lparr>FrontedServers := [serverA]\<rparr>]\<rparr>)"
    unfolding mergedConfig_OkI [OF a]
    by (simp add: exBadAddr_def exState_def exClient_def)
  then show ?thesis
    using p by (simp add: exBadAddr_def)
qed

lemma mergedConfig_again:
  assumes "mergedConfig e st = Ok (m, st')"
  shows "\<exists>m2 st2. mergedConfig e st' = Ok (m2, st2)
          \<and> snapshot (clients st2) m2 = snapshot (clients st') m"
proof -
  from mergedConfig_OkD [OF assms] obtain d c cc where
    cp: "dst (Copy e (snapshot (clients st) (localCfg st))) = (d, Some c)"
    and v: "Client (localCfg st) = None \<or> load (clients st) (Client (localCfg st)) \<noteq> None"
    and cc: "cloudConfig.Client (cloudCfg st) = Some cc"
    and m: "m = d\<lparr>Client := Some (length (clients st)),
                    ProxiedSites := cloudConfig.ProxiedSites (cloudCfg st),
                    TrustedCAs := cloudConfig.TrustedCAs (cloudCfg st)\<rparr>"
    and st': "st' = st\<lparr>clients := clients st @
                  [c\<lparr>FrontedServers := FrontedServers cc,
                     ChainedServers := ChainedServers cc,
                     MasqueradeSets := MasqueradeSets cc\<rparr>]\<rparr>"
    by blast
  have l: "load (clients st') (Client (localCfg st')) = load (clients st) (Client (localCfg st))"
    using v by (auto simp: st' load_def nth_append split: option.splits if_splits)
  have s: "snapshot (clients st') (localCfg st') = snapshot (clients st) (localCfg st)"
    using l by (simp add: snapshot_def) (simp add: st')
  have a: "dst (Copy e (snapshot (clients st') (localCfg st'))) = (d, Some c)"
    "Client (localCfg st') = None \<or> load (clients st') (Client (localCfg st')) \<noteq> None"
    "cloudConfig.Client (cloudCfg st') = Some cc"
    using cp v cc l by (simp_all only: s) (simp_all add: st')
  show ?thesis
    unfolding mergedConfig_OkI [OF a]
    by (simp add: snapshot_def load_def m st' nth_append)
qed

lemma mergedConfig_frame:
  assumes "mergedConfig e st = Ok (m, st')"
  shows "localCfg st' = localCfg st" "cloudCfg st' = cloudCfg st"
    "lastCloudConfigETag st' = lastCloudConfigETag st"
    "globalsInstanceId st' = globalsInstanceId st" "handled st' = handled st"
    "take (length (clients st)) (clients st') = clients st"
  using mergedConfig_OkD [OF assms] by auto

lemma mergedConfigs_same:
  assumes "mergedConfig e st = Ok (m, st')"
  shows "\<exists>mn sn. mergedConfigs e n st = Ok (mn, sn)
          \<and> snapshot (clients sn) mn = snapshot (clients st') m
          \<and> localCfg sn = localCfg st \<and> cloudCfg sn = cloudCfg st
          \<and> lastCloudConfigETag sn = lastCloudConfigETag st
          \<and> globalsInstanceId sn = globalsInstanceId st \<and> handled sn = handled st
          \<and> take (length (clients st)) (clients sn) = clients st"
  using assms
proof (induction n arbitrary: st m st')
  case 0
  then show ?case
    using mergedConfig_frame [OF 0] by simp
next
  case (Suc n)
  from mergedConfig_again [OF Suc.prems] obtain m2 st2 where
    again: "mergedConfig e st' = Ok (m2, st2)"
    and same: "snapshot (clients st2) m2 = snapshot (clients st') m"
    by blast
  from Suc.IH [OF again] obtain mn sn where
    n: "mergedConfigs e n st' = Ok (mn, sn)"
    and sn: "snapshot (clients sn) mn = snapshot (clients st2) m2"
      "localCfg sn = localCfg st'" "cloudCfg sn = cloudCfg st'"
      "lastCloudConfigETag sn = lastCloudConfigETag st'"
      "globalsInstanceId sn = globalsInstanceId st'" "handled sn = handled st'"
      "take (length (clients st')) (clients sn) = clients st'"
    by blast
  note f = mergedConfig_frame [OF Suc.prems]
  have "take (length (clients st)) (clients sn) = take (length (clients st)) (clients st')"
  proof -
    have "length (clients st) \<le> length (clients st')"
      using f(6) by (metis length_take min.cobounded2 min.commute)
    then have "take (length (clients st)) (take (length (clients st')) (clients sn))
        = take (length (clients st)) (clients sn)"
      by (simp add: min_def)
    then show ?thesis by (simp only: sn(7))
  qed
  then have "take (length (clients st)) (clients sn) = clients st"
    by (simp only: f(6))
  then show ?case
    using n sn same f Suc.prems by simp
qed

text \<open>
  C2. Whenever \<^verbatim>\<open>mergedConfig\<close> returns, any number of further calls return too, each with
  the same content as the first (\<open>snapshot\<close>: every field, and the object behind the
  \<open>Client\<close> pointer; only the address of that fresh object differs from call to call), and
  after all of them the local Config, the cloud snapshot, the ETag cache, the globals,
  what was handed to the handler, and every object that was in the store before the
  first call are unchanged: the only writes go to the copies.
\<close>

theorem mergedConfig_pure:
  assumes "mergedConfig e st = Ok (m, st')"
  shows "\<exists>mn sn. mergedConfigs e n st = Ok (mn, sn)
          \<and> snapshot (clients sn) mn = snapshot (clients st') m
          \<and> localCfg sn = localCfg st \<and> cloudCfg sn = cloudCfg st
          \<and> lastCloudConfigETag sn = lastCloudConfigETag st
          \<and> globalsInstanceId sn = globalsInstanceId st \<and> handled sn = handled st
          \<and> take (length (clients st)) (clients sn) = clients st"
  using assms by (rule mergedConfigs_same)

text \<open>The theorem of C2 at the installation: three calls in a row.\<close>

theorem mergedConfig_pure_witness:
  "\<exists>m st' m3 s3.
      mergedConfig exEnv exState = Ok (m, st')
    \<and> mergedConfigs exEnv 2 exState = Ok (m3, s3)
    \<and> snapshot (clients s3) m3 = snapshot (clients st') m
    \<and> localCfg s3 = exLocal \<and> cloudCfg s3 = exCloud
    \<and> take 1 (clients s3) = [exClient]"
proof -
  note em = exMerged [OF exCopied(1)]
  from mergedConfig_pure [OF em, of 2] obtain m3 s3 where
    r: "mergedConfigs exEnv 2 exState = Ok (m3, s3)"
    and s: "snapshot (clients s3) m3
        = snapshot (clients (exState\<lparr>clients := [exClient, exClient\<lparr>FrontedServers := [serverA]\<rparr>]\<rparr>))
            (exLocal\<lparr>Client := Some 1, ProxiedSites := cloudConfig.ProxiedSites exCloud,
                 TrustedCAs := cloudConfig.TrustedCAs exCloud\<rparr>)"
    and f: "localCfg s3 = localCfg exState" "cloudCfg s3 = cloudCfg exState"
      "take (length (clients exState)) (clients s3) = clients exState"
    by blast
  have e: "localCfg exState = exLocal" "cloudCfg exState = exCloud"
    "length (clients exState) = 1" "clients exState = [exClient]"
    by (simp_all add: exState_def)
  have t: "take 1 (clients s3) = [exClient]"
    using f(3) by (simp add: e)
  show ?thesis
    apply (intro exI conjI)
         apply (rule em)
        apply (rule r)
       apply (rule s)
      apply (simp add: f e)
     apply (simp add: f e)
    apply (rule t)
    done
qed

subsection \<open>The publication loop\<close>










subsection \<open>Conditional fetch, end to end\<close>

lemma fetch_sentI:
  assumes "newRequestOK e url"
  shows "sent (fetchCloudConfig e url st)
     = Some \<lparr>Method = ''GET'', URL = url,
               Header = (if get (lastCloudConfigETag st) url \<noteq> []
                         then [ifNoneMatch \<mapsto> get (lastCloudConfigETag st) url] else Map.empty),
               Close = True\<rparr>"
  using assms
  by (simp add: fetchCloudConfig_def Let_def split: Reply.splits gz.splits)

lemma fetch_frame:
  "localCfg (after (fetchCloudConfig e url st)) = localCfg st"
  "cloudCfg (after (fetchCloudConfig e url st)) = cloudCfg st"
  "clients (after (fetchCloudConfig e url st)) = clients st"
  "handled (after (fetchCloudConfig e url st)) = handled st"
  "globalsInstanceId (after (fetchCloudConfig e url st)) = globalsInstanceId st"
  by (simp_all add: fetchCloudConfig_def Let_def split: Reply.splits gz.splits)

lemma cloudPoll_OkD:
  assumes "cloudPoll e st = Ok p"
  shows "request p = sent (fetchCloudConfig e (CloudConfig (localCfg st)) st)"
    and "lastCloudConfigETag (final p)
          = lastCloudConfigETag (after (fetchCloudConfig e (CloudConfig (localCfg st)) st))"
    and "localCfg (final p) = localCfg st" and "clients (final p) = clients st"
    and "handled (final p) = handled st"
  using assms
  by (auto simp: cloudPoll_def Let_def fetch_frame
      split: sum.splits option.splits prod.splits)

lemma iteration_WaitingD:
  assumes "iteration e ev st = Waiting st2"
  shows "\<exists>cfg sm. mergedConfig e (selected ev st) = Ok (cfg, sm)
          \<and> st2 = sm\<lparr>globalsInstanceId := InstanceId cfg, handled := handled sm @ [cfg]\<rparr>"
  using assms
  by (auto simp: iteration_def Let_def updateGlobals_def
      split: outcome.splits prod.splits option.splits if_splits)

text \<open>
  C6, as the code has it. Take a first poll that is answered with status 200 and the token
  \<open>v1\<close> in the header \<^verbatim>\<open>X-Lantern-Etag\<close>, whose document parses, so that it signals and
  \<^verbatim>\<open>Run\<close> publishes the merged configuration. The request of the second poll then carries
  the header \<^verbatim>\<open>X-Lantern-If-None-Match\<close> with value \<open>v1\<close> and no other header; when it is
  answered with status 304 the second poll signals nothing and changes nothing, so the
  configuration last handed to the handler is still the one whose fronted servers are
  those of the stored cloud configuration.
\<close>

theorem conditional_fetch_scenario:
  assumes "cloudPoll e st0 = Ok p1"
    and "request p1 = Some req1" and "httpDo e req1 = Response 200 hdr1 body1"
    and "get hdr1 etag = v1" and "v1 \<noteq> []"
    and "signal p1"
    and "iteration e CloudConfigChanged (final p1) = Waiting st2"
    and "httpDo e \<lparr>Method = ''GET'', URL = CloudConfig (localCfg st0),
                   Header = [''X-Lantern-If-None-Match'' \<mapsto> v1], Close = True\<rparr>
           = Response 304 hdr2 body2"
  shows "cloudPoll e st2 =
           Ok \<lparr>request = Some \<lparr>Method = ''GET'', URL = CloudConfig (localCfg st0),
                                Header = [''X-Lantern-If-None-Match'' \<mapsto> v1], Close = True\<rparr>,
               signal = False, final = st2\<rparr>
       \<and> (\<exists>m mc cc. handled st2 = handled st0 @ [m]
             \<and> load (clients st2) (Client m) = Some mc
             \<and> cloudConfig.Client (cloudCfg st2) = Some cc
             \<and> FrontedServers mc = FrontedServers cc)"
proof -
  let ?url = "CloudConfig (localCfg st0)"
  let ?req2 = "\<lparr>Method = ''GET'', URL = ?url,
                Header = [''X-Lantern-If-None-Match'' \<mapsto> v1], Close = True\<rparr>"
  note p1 = cloudPoll_OkD [OF assms(1)]
  have sent1: "sent (fetchCloudConfig e ?url st0) = Some req1"
    using p1(1) assms(2) by simp
  have ok: "newRequestOK e ?url"
    by (rule fetch_sentD(1) [OF sent1])
  have tag1: "get (lastCloudConfigETag (final p1)) ?url = v1"
    by (simp add: p1(2) fetch_200 [OF sent1 assms(3)] get_def assms(4) [unfolded get_def])
  from iteration_WaitingD [OF assms(7)] obtain cfg sm where
    m: "mergedConfig e (final p1) = Ok (cfg, sm)"
    and st2: "st2 = sm\<lparr>globalsInstanceId := InstanceId cfg, handled := handled sm @ [cfg]\<rparr>"
    by (auto simp: selected_def)
  note f = mergedConfig_frame [OF m]
  have loc2: "localCfg st2 = localCfg st0"
    by (simp add: st2 f(1) p1(3))
  have tag2: "get (lastCloudConfigETag st2) ?url = v1"
    by (simp add: st2 f(3) tag1)
  have sent2: "sent (fetchCloudConfig e (CloudConfig (localCfg st2)) st2) = Some ?req2"
    using fetch_sentI [OF ok, of st2] assms(5) by (simp add: loc2 tag2 ifNoneMatch_def)
  have poll2: "cloudPoll e st2 = Ok \<lparr>request = Some ?req2, signal = False, final = st2\<rparr>"
    by (rule cloudPoll_304 [OF sent2 assms(8)])
  from mergedConfig_OkD [OF m] obtain d c cc where
    cc: "cloudConfig.Client (cloudCfg (final p1)) = Some cc"
    and cfg: "cfg = d\<lparr>Client := Some (length (clients (final p1))),
                ProxiedSites := cloudConfig.ProxiedSites (cloudCfg (final p1)),
                TrustedCAs := cloudConfig.TrustedCAs (cloudCfg (final p1))\<rparr>"
    and sm: "sm = (final p1)\<lparr>clients := clients (final p1) @
                  [c\<lparr>FrontedServers := FrontedServers cc,
                     ChainedServers := ChainedServers cc,
                     MasqueradeSets := MasqueradeSets cc\<rparr>]\<rparr>"
    by blast
  have "handled st2 = handled st0 @ [cfg]"
    by (simp add: st2 f(5) p1(5))
  moreover have "load (clients st2) (Client cfg)
      = Some (c\<lparr>FrontedServers := FrontedServers cc,
                 ChainedServers := ChainedServers cc,
                 MasqueradeSets := MasqueradeSets cc\<rparr>)"
    by (simp add: st2 sm cfg load_def)
  moreover have "cloudConfig.Client (cloudCfg st2) = Some cc"
    by (simp add: st2 f(2) cc)
  ultimately show ?thesis
    using poll2 by simp
qed

lemma exFirstPoll:
  "cloudPoll exEnv exState =
     Ok \<lparr>request = Some \<lparr>Method = ''GET'', URL = CloudConfig exLocal, Header = Map.empty,
                          Close = True\<rparr>,
         signal = True, final = exPolled\<rparr>"
proof -
  let ?req = "\<lparr>Method = ''GET'', URL = CloudConfig exLocal, Header = Map.empty, Close = True\<rparr>"
  have l: "localCfg exState = exLocal"
    by (simp add: exState_def)
  have s: "sent (fetchCloudConfig exEnv (CloudConfig (localCfg exState)) exState) = Some ?req"
    unfolding l
    by (simp add: fetchCloudConfig_def exEnv_def exState_def get_def exServer_def ifNoneMatch_def)
  have r: "httpDo exEnv ?req = Response 200 [etag \<mapsto> ''v1''] [31, 139, 8]"
    by (simp add: exEnv_def exServer_def)
  have g: "gunzip exEnv [31, 139, 8] = Inflated [31, 139, 8]"
    by (simp add: exEnv_def)
  have y: "yamlUnmarshal exEnv [31, 139, 8] emptyCloudConfig = Parsed exFetched"
    by (simp add: exEnv_def exParser_def exFetched_def emptyCloudConfig_def)
  show ?thesis
    unfolding cloudPoll_200 [OF s r g] y
    by (simp add: exFetched_def emptyCloudConfig_def exEnv_def exPolled_def exState_def get_def l)
qed

lemma exPublish:
  "iteration exEnv CloudConfigChanged exPolled = Waiting exPublished"
proof -
  have a: "dst (Copy exEnv (snapshot (clients exPolled) (localCfg exPolled)))
             = (exLocal\<lparr>Client := None\<rparr>, Some exClient)"
    "Client (localCfg exPolled) = None
       \<or> load (clients exPolled) (Client (localCfg exPolled)) \<noteq> None"
    "cloudConfig.Client (cloudCfg exPolled)
       = Some \<lparr>DumpHeaders = False, FrontedServers = [serverA], ChainedServers = Map.empty,
             MasqueradeSets = Map.empty, ProxyAll = False, MinQOS = 0\<rparr>"
    by (simp_all add: exCopied snapshot_def load_def exPolled_def exState_def exLocal_def
        exFetched_def)
  let ?cfg = "exLocal\<lparr>Client := Some 1, ProxiedSites := cloudConfig.ProxiedSites exFetched,
                      TrustedCAs := []\<rparr>"
  let ?sm = "exPolled\<lparr>clients := [exClient, exClient\<lparr>FrontedServers := [serverA]\<rparr>]\<rparr>"
  have m: "mergedConfig exEnv exPolled = Ok (?cfg, ?sm)"
    unfolding mergedConfig_OkI [OF a]
    by (simp add: exPolled_def exState_def exFetched_def emptyCloudConfig_def exClient_def)
  have u: "updateGlobals exEnv ?cfg ?sm
      = Ok (None, ?sm\<lparr>globalsInstanceId := ''0a1b2c3d4e5f''\<rparr>)"
    by (simp add: updateGlobals_def TrustedCACerts_def exEnv_def exLocal_def)
  have h: "handled exPolled = []"
    by (simp add: exPolled_def exState_def)
  show ?thesis
    unfolding iteration_def selected_def Let_def event.case m outcome.case prod.case u option.case
    by (simp add: exPublished_def h)
qed

text \<open>
  The theorem of C6 at the installation: the first poll fetches a document naming
  \<open>serverA\<close>, \<^verbatim>\<open>Run\<close> publishes, and the second poll is answered 304.
\<close>

theorem conditional_fetch_scenario_witness:
  "cloudPoll exEnv exState =
     Ok \<lparr>request = Some \<lparr>Method = ''GET'', URL = CloudConfig exLocal, Header = Map.empty,
                          Close = True\<rparr>,
         signal = True, final = exPolled\<rparr>
   \<and> iteration exEnv CloudConfigChanged exPolled = Waiting exPublished
   \<and> cloudPoll exEnv exPublished =
       Ok \<lparr>request = Some \<lparr>Method = ''GET'', URL = CloudConfig exLocal,
                            Header = [''X-Lantern-If-None-Match'' \<mapsto> ''v1''], Close = True\<rparr>,
           signal = False, final = exPublished\<rparr>
   \<and> (\<exists>m mc cc. handled exPublished = handled exState @ [m]
         \<and> load (clients exPublished) (Client m) = Some mc
         \<and> cloudConfig.Client (cloudCfg exPublished) = Some cc
         \<and> FrontedServers mc = FrontedServers cc)"
proof -
  let ?req = "\<lparr>Method = ''GET'', URL = CloudConfig exLocal, Header = Map.empty, Close = True\<rparr>"
  let ?p1 = "\<lparr>request = Some ?req, signal = True, final = exPolled\<rparr>"
  have l: "localCfg exState = exLocal"
    by (simp add: exState_def)
  have r: "httpDo exEnv ?req = Response 200 [etag \<mapsto> ''v1''] [31, 139, 8]"
    by (simp add: exEnv_def exServer_def)
  have r2: "httpDo exEnv \<lparr>Method = ''GET'', URL = CloudConfig (localCfg exState),
                   Header = [''X-Lantern-If-None-Match'' \<mapsto> ''v1''], Close = True\<rparr>
           = Response 304 Map.empty []"
    by (simp add: exEnv_def exServer_def ifNoneMatch_def)
  have t: "get [etag \<mapsto> ''v1''] etag = ''v1''" "''v1'' \<noteq> []"
    by (simp_all add: get_def)
  have "request ?p1 = Some ?req" "signal ?p1" "final ?p1 = exPolled"
    by simp_all
  with conditional_fetch_scenario [of exEnv exState ?p1 ?req "[etag \<mapsto> ''v1'']"
      "[31, 139, 8]" "''v1''" exPublished Map.empty "[]"]
    exFirstPoll exPublish r r2 t
  show ?thesis
    by (simp add: l)
qed

text \<open>
  C6 as stated fails: after a first poll answered 200 with the token "v1", the request
  of the second poll has no header named \<^verbatim>\<open>If-None-Match\<close>; the token travels in
  \<^verbatim>\<open>X-Lantern-If-None-Match\<close>.
\<close>

theorem conditional_header_name:
  "etagAfter (cloudPoll exEnv exState) (CloudConfig exLocal) = ''v1''
   \<and> requestHeader (thenPoll exEnv exState) ''If-None-Match'' = []
   \<and> requestHeader (thenPoll exEnv exState) ''X-Lantern-If-None-Match'' = ''v1''"
proof -
  have l: "localCfg exPolled = exLocal"
    by (simp add: exPolled_def exState_def)
  have s: "sent (fetchCloudConfig exEnv (CloudConfig (localCfg exPolled)) exPolled)
     = Some \<lparr>Method = ''GET'', URL = CloudConfig exLocal,
             Header = [''X-Lantern-If-None-Match'' \<mapsto> ''v1''], Close = True\<rparr>"
    unfolding l
    by (simp add: fetchCloudConfig_def exEnv_def exPolled_def exState_def get_def exServer_def
        ifNoneMatch_def)
  have r: "httpDo exEnv \<lparr>Method = ''GET'', URL = CloudConfig exLocal,
             Header = [''X-Lantern-If-None-Match'' \<mapsto> ''v1''], Close = True\<rparr>
      = Response 304 Map.empty []"
    by (simp add: exEnv_def exServer_def ifNoneMatch_def)
  have t: "thenPoll exEnv exState =
      Ok \<lparr>request = Some \<lparr>Method = ''GET'', URL = CloudConfig exLocal,
             Header = [''X-Lantern-If-None-Match'' \<mapsto> ''v1''], Close = True\<rparr>,
          signal = False, final = exPolled\<rparr>"
    by (simp add: thenPoll_def exFirstPoll cloudPoll_304 [OF s r])
  have e: "etagAfter (cloudPoll exEnv exState) (CloudConfig exLocal) = ''v1''"
    by (simp add: exFirstPoll etagAfter_def get_def exPolled_def)
  show ?thesis
    by (simp add: t e requestHeader_def get_def)
qed

end
